theory Spec2Isabelle
  imports Complex_Main "HOL-Library.AList" "HOL-Library.Sublist"
begin

section \<open>Conventions of the embedding\<close>

text \<open>
  The development embeds the Collective Learning Network of the repository: the classes
  \<open>Graph\<close>, \<open>SharedMemory\<close> and \<open>CollectiveIntelligence\<close> of
  \<^verbatim>\<open>src/intelligence/CollectiveIntelligence.js\<close> and the class \<open>PredictiveEngine\<close> of
  \<^verbatim>\<open>src/intelligence/PredictiveEngine.js\<close>.

  \<^item> A JavaScript number that is finite is a rational (\<open>rat\<close>): sums, products, quotients
    and comparisons are exact, the rounding of IEEE doubles is not modelled. The results
    of a division that JavaScript does not keep finite are the values \<open>NaN\<close> and
    \<open>Infinity\<close> of the type \<open>number\<close> below.
  \<^item> A property that may be absent (\<open>undefined\<close>) is an \<open>option\<close>, \<open>None\<close> being
    \<open>undefined\<close>. Reading a property of \<open>undefined\<close> raises \<open>TypeError\<close>.
  \<^item> A \<open>Map\<close> is an association list in insertion order; \<open>Map.set\<close> is
    \<open>AList.update\<close> (an existing key keeps its place, a new key goes last), \<open>Map.get\<close> is
    \<open>map_of\<close>.
  \<^item> A method that raises returns \<open>Inl\<close> of the error, a method that returns normally
    returns \<open>Inr\<close> of its result (and of the state it leaves).
  \<^item> \<open>Date.now()\<close> is the parameter \<open>now\<close>.
\<close>

datatype error = TypeError | SyntaxError | LibraryError

datatype number = Num rat | NaN | Infinity

text \<open>\<open>a / b\<close> of JavaScript for two non-negative integers (lengths and sizes).\<close>

definition js_div_nat :: "nat \<Rightarrow> nat \<Rightarrow> number" where
  "js_div_nat a b =
     (if b = 0 then (if a = 0 then NaN else Infinity) else Num (of_nat a / of_nat b))"

text \<open>\<open>x / n\<close> of JavaScript for a finite \<open>x\<close> and a length \<open>n\<close>.\<close>

definition js_div_len :: "rat \<Rightarrow> nat \<Rightarrow> number" where
  "js_div_len x n =
     (if n = 0 then (if x = 0 then NaN else Infinity) else Num (x / of_nat n))"


section \<open>The relationship graph (class Graph)\<close>

record edge =
  to :: string
  weight :: rat

text \<open>
  \<open>nodes\<close> is a \<open>Map\<close> from node id to node data; \<open>edges\<close> is a \<open>Map\<close> from node id to a
  \<open>Set\<close> of edge objects. Every \<open>addEdge\<close> creates a new object, and a \<open>Set\<close> compares
  objects by identity, so the set is the list of the edges added, in insertion order.
\<close>

record 'd graph =
  nodes :: "(string \<times> 'd) list"
  edges :: "(string \<times> edge list) list"

definition new_Graph :: "'d graph" where
  "new_Graph = \<lparr>nodes = [], edges = []\<rparr>"

definition addNode :: "'d graph \<Rightarrow> string \<Rightarrow> 'd \<Rightarrow> 'd graph" where
  "addNode g ident d =
     (let g1 = g\<lparr>nodes := AList.update ident d (nodes g)\<rparr>
      in if map_of (edges g1) ident = None
         then g1\<lparr>edges := AList.update ident [] (edges g1)\<rparr>
         else g1)"

text \<open>\<open>this.edges.get(from).add(...)\<close> raises when \<open>from\<close> was never added as a node.\<close>

definition addEdge :: "'d graph \<Rightarrow> string \<Rightarrow> string \<Rightarrow> rat \<Rightarrow> error + 'd graph" where
  "addEdge g from t w =
     (case map_of (edges g) from of
        None \<Rightarrow> Inl TypeError
      | Some es \<Rightarrow> Inr (g\<lparr>edges := AList.update from (es @ [\<lparr>to = t, weight = w\<rparr>]) (edges g)\<rparr>))"

text \<open>
  \<open>xs.slice(0, final)\<close> for an integer \<open>final\<close>: the first \<open>final\<close> elements (all of them
  when there are fewer); a negative \<open>final\<close> counts from the end, so that the last
  \<open>- final\<close> elements are left off (nothing remains when there are no more than that).
\<close>

definition slice_from_0 :: "'a list \<Rightarrow> int \<Rightarrow> 'a list" where
  "slice_from_0 xs final =
     (if final < 0 then take (nat (int (length xs) + final)) xs else take (nat final) xs)"

text \<open>
  \<open>Array.prototype.sort\<close> is stable; with the comparator \<open>(a, b) => b.weight - a.weight\<close>
  it is the stable sort by descending weight. \<open>limit\<close> is an integer (5 when the argument
  is left out).
\<close>

definition findStrongestConnections :: "'d graph \<Rightarrow> string \<Rightarrow> int \<Rightarrow> edge list" where
  "findStrongestConnections g nodeId limit =
     (let connections = (case map_of (edges g) nodeId of None \<Rightarrow> [] | Some es \<Rightarrow> es)
      in slice_from_0 (sort_key (\<lambda>e. - weight e) connections) limit)"

definition findStrongestConnections_default :: "'d graph \<Rightarrow> string \<Rightarrow> edge list" where
  "findStrongestConnections_default g nodeId = findStrongestConnections g nodeId 5"





section \<open>Shared memory (class SharedMemory)\<close>

text \<open>
  An interaction is the object an agent runtime hands to \<open>updateCustomerProfile\<close>; the
  class reads its properties \<open>sentiment\<close>, \<open>items\<close>, \<open>feedback\<close> and \<open>notes\<close>.
\<close>

record interaction =
  i_sentiment :: "rat option"
  i_items :: "string list option"
  i_feedback :: "string option"
  i_notes :: "string option"

record profile =
  profile_id :: string
  preferences :: "string list"
  interactions :: "interaction list"
  sentiment :: number
  lifetime_value :: rat
  special_dates :: "string list"
  allergies :: "string list"
  favorite_items :: "string list"

record emotionalData =
  e_detected :: "string option"
  e_response :: "string option"
  e_effectiveness :: "rat option"
  e_customerFeedback :: "string option"

text \<open>
  A cell of the emotional matrix. The property \<open>averageEffectiveness\<close> is absent on the
  object as it is created and present after the first update.
\<close>

record cell =
  effectiveness :: "rat option list"
  count :: nat
  averageEffectiveness :: "number option"

record shared_memory =
  customerProfiles :: "(string \<times> profile) list"
  emotionalMatrix :: "(string \<times> cell) list"
  relationships :: "unit graph"

definition new_SharedMemory :: shared_memory where
  "new_SharedMemory = \<lparr>customerProfiles = [], emotionalMatrix = [], relationships = new_Graph\<rparr>"

text \<open>
  What the class takes from outside the repository: the sentiment analyser of the package
  \<open>natural\<close> (\<open>getSentiment\<close>) and the regular-expression engine, as the function
  \<open>match_after\<close> that gives the group captured by
  \<^verbatim>\<open>new RegExp(`${keyword}\\s+to\\s+(\\w+)`, 'i')\<close> in a text, if the text matches.
\<close>

record text_tools =
  getSentiment :: "string \<Rightarrow> rat"
  match_after :: "string \<Rightarrow> string \<Rightarrow> string option"

subsection \<open>calculateSentiment\<close>

text \<open>\<open>i.sentiment || 0\<close>: an absent sentiment counts as 0 (and 0 is 0).\<close>

definition sentiment_or_0 :: "interaction \<Rightarrow> rat" where
  "sentiment_or_0 i = (case i_sentiment i of None \<Rightarrow> 0 | Some s \<Rightarrow> s)"

text \<open>\<open>xs.slice(-10)\<close>: the last ten elements, all of them when there are fewer.\<close>

definition slice_last10 :: "'a list \<Rightarrow> 'a list" where
  "slice_last10 xs = drop (length xs - 10) xs"

text \<open>
  The \<open>reduce\<close> of \<open>calculateSentiment\<close>, from position \<open>index\<close> on, with the running
  sum \<open>acc\<close>; \<open>n\<close> is \<open>recent.length\<close>.
\<close>

fun weighted_reduce :: "nat \<Rightarrow> rat list \<Rightarrow> nat \<Rightarrow> rat \<Rightarrow> rat" where
  "weighted_reduce n [] index acc = acc"
| "weighted_reduce n (s # rest) index acc =
     weighted_reduce n rest (index + 1) (acc + s * (of_nat (index + 1) / of_nat n))"

definition calculateSentiment :: "interaction list \<Rightarrow> number" where
  "calculateSentiment history =
     (let sentiments = map sentiment_or_0 history;
          recent = slice_last10 sentiments;
          weightedSum = weighted_reduce (length recent) recent 0 0
      in js_div_len weightedSum (length recent))"

subsection \<open>extractPreferences and extractDietaryInfo\<close>

definition toLowerCase :: "string \<Rightarrow> string" where
  "toLowerCase s =
     map (\<lambda>c. let n = (of_char c :: nat) in if 65 \<le> n \<and> n \<le> 90 then char_of (n + 32) else c) s"

definition includes_str :: "string \<Rightarrow> string \<Rightarrow> bool" where
  "includes_str text keyword = sublist keyword text"

definition allergyKeywords :: "string list" where
  "allergyKeywords = [''allergic'', ''allergy'', ''intolerant'', ''cannot eat'']"

definition preferenceKeywords :: "string list" where
  "preferenceKeywords = [''vegetarian'', ''vegan'', ''kosher'', ''halal'', ''gluten-free'']"

definition extractDietaryInfo :: "text_tools \<Rightarrow> string \<Rightarrow> string list \<times> string list" where
  "extractDietaryInfo tools text =
     (List.map_filter
        (\<lambda>keyword. if includes_str (toLowerCase text) keyword then match_after tools keyword text
                   else None)
        allergyKeywords,
      filter (\<lambda>pref. includes_str (toLowerCase text) pref) preferenceKeywords)"

text \<open>\<open>[...new Set(xs)]\<close>: the elements of \<open>xs\<close> in order, each at its first place.\<close>

definition uniq :: "'a list \<Rightarrow> 'a list" where
  "uniq xs = rev (remdups (rev xs))"

fun add_favorites :: "string list \<Rightarrow> string list \<Rightarrow> string list" where
  "add_favorites favs [] = favs"
| "add_favorites favs (item # rest) =
     add_favorites (if item \<in> set favs then favs else favs @ [item]) rest"

definition extractPreferences :: "text_tools \<Rightarrow> profile \<Rightarrow> interaction \<Rightarrow> profile" where
  "extractPreferences tools p i =
     (let p1 =
        (case i_items i of
           None \<Rightarrow> p
         | Some its \<Rightarrow>
             if getSentiment tools (case i_feedback i of None \<Rightarrow> [] | Some f \<Rightarrow> f) > 0
             then p\<lparr>favorite_items := add_favorites (favorite_items p) its\<rparr>
             else p)
      in case i_notes i of
           None \<Rightarrow> p1
         | Some ns \<Rightarrow>
             if ns = [] then p1
             else (let dietary = extractDietaryInfo tools ns
                   in p1\<lparr>allergies := uniq (allergies p1 @ fst dietary),
                          preferences := uniq (preferences p1 @ snd dietary)\<rparr>))"

subsection \<open>updateCustomerProfile\<close>

definition new_profile :: "string \<Rightarrow> profile" where
  "new_profile customerId =
     \<lparr>profile_id = customerId, preferences = [], interactions = [], sentiment = Num 0,
      lifetime_value = 0, special_dates = [], allergies = [], favorite_items = []\<rparr>"

text \<open>The profile of a customer as the method finds it, after creating it when absent.\<close>

definition profile_of :: "shared_memory \<Rightarrow> string \<Rightarrow> profile" where
  "profile_of sm customerId =
     (case map_of (customerProfiles sm) customerId of
        None \<Rightarrow> new_profile customerId
      | Some p \<Rightarrow> p)"

text \<open>
  The method mutates the profile object held in the map and returns it: the model returns
  the profile and the memory holding it.
\<close>

definition updateCustomerProfile ::
  "text_tools \<Rightarrow> shared_memory \<Rightarrow> string \<Rightarrow> interaction \<Rightarrow> profile \<times> shared_memory" where
  "updateCustomerProfile tools sm customerId i =
     (let p0 = profile_of sm customerId;
          p1 = p0\<lparr>interactions := interactions p0 @ [i]\<rparr>;
          p2 = p1\<lparr>sentiment := calculateSentiment (interactions p1)\<rparr>;
          p3 = extractPreferences tools p2 i
      in (p3, sm\<lparr>customerProfiles := AList.update customerId p3 (customerProfiles sm)\<rparr>))"

subsection \<open>updateEmotionalMatrix\<close>

text \<open>A template literal prints an absent value as the word \<open>undefined\<close>.\<close>

definition template :: "string option \<Rightarrow> string" where
  "template v = (case v of None \<Rightarrow> ''undefined'' | Some s \<Rightarrow> s)"

definition matrix_key :: "emotionalData \<Rightarrow> string" where
  "matrix_key d = template (e_detected d) @ ''_'' @ template (e_response d)"

text \<open>\<open>a + b\<close> where \<open>a\<close> is the running sum and \<open>b\<close> a sample: an absent sample gives \<open>NaN\<close>.\<close>

fun js_add :: "number \<Rightarrow> rat option \<Rightarrow> number" where
  "js_add (Num a) (Some b) = Num (a + b)"
| "js_add Infinity (Some b) = Infinity"
| "js_add _ _ = NaN"

fun js_div_number :: "number \<Rightarrow> nat \<Rightarrow> number" where
  "js_div_number (Num x) n = js_div_len x n"
| "js_div_number Infinity n = Infinity"
| "js_div_number NaN n = NaN"

definition average :: "rat option list \<Rightarrow> number" where
  "average samples = js_div_number (foldl js_add (Num 0) samples) (length samples)"

definition updateEmotionalMatrix :: "shared_memory \<Rightarrow> emotionalData \<Rightarrow> shared_memory" where
  "updateEmotionalMatrix sm d =
     (let key = matrix_key d;
          matrix0 = (case map_of (emotionalMatrix sm) key of
                       None \<Rightarrow> \<lparr>effectiveness = [], count = 0, averageEffectiveness = None\<rparr>
                     | Some c \<Rightarrow> c);
          matrix1 = matrix0\<lparr>effectiveness := effectiveness matrix0 @ [e_effectiveness d]\<rparr>;
          matrix2 = matrix1\<lparr>count := count matrix1 + 1\<rparr>;
          avg = average (effectiveness matrix2)
      in sm\<lparr>emotionalMatrix :=
              AList.update key (matrix2\<lparr>averageEffectiveness := Some avg\<rparr>) (emotionalMatrix sm)\<rparr>)"


definition recency_weights :: "nat \<Rightarrow> rat list" where
  "recency_weights n = map (\<lambda>k. of_nat (k + 1) / of_nat n) [0..<n]"

definition weighted_mean :: "rat list \<Rightarrow> rat list \<Rightarrow> rat" where
  "weighted_mean ws xs = (\<Sum>(w, x) \<leftarrow> zip ws xs. w * x) / sum_list ws"

definition recency_weighted_mean :: "rat list \<Rightarrow> rat" where
  "recency_weighted_mean xs = weighted_mean (recency_weights (length xs)) xs"

definition submit_all :: "shared_memory \<Rightarrow> emotionalData list \<Rightarrow> shared_memory" where
  "submit_all sm ds = fold (\<lambda>d m. updateEmotionalMatrix m d) ds sm"










text \<open>Example inputs: an emotional read with every value present.\<close>

definition emotional_read :: "string \<Rightarrow> string \<Rightarrow> rat \<Rightarrow> emotionalData" where
  "emotional_read a b e =
     \<lparr>e_detected = Some a, e_response = Some b, e_effectiveness = Some e,
      e_customerFeedback = None\<rparr>"

text \<open>Example inputs: a customer with ten visits, the first an unhappy one.\<close>

definition no_tools :: text_tools where
  "no_tools = \<lparr>getSentiment = (\<lambda>feedback. 0), match_after = (\<lambda>keyword text. None)\<rparr>"

definition visit :: "rat \<Rightarrow> interaction" where
  "visit s = \<lparr>i_sentiment = Some s, i_items = None, i_feedback = None, i_notes = None\<rparr>"

definition ten_visits :: shared_memory where
  "ten_visits =
     new_SharedMemory\<lparr>customerProfiles :=
       [(''c1'', (new_profile ''c1'')\<lparr>interactions := visit (- 1) # replicate 9 (visit 1)\<rparr>)]\<rparr>"


section \<open>The coordinator (class CollectiveIntelligence)\<close>

subsection \<open>Messages\<close>

text \<open>
  A message of an agent, as \<open>JSON.parse\<close> returns it: an object whose properties may be
  absent. \<open>context\<close>, \<open>outcome\<close> and \<open>emotion\<close> are objects themselves, with the
  properties the handlers read. A \<open>WebSocket\<close> is modelled by its \<open>readyState\<close>.
\<close>

type_synonym agentId = string

datatype readyState = CONNECTING | OPEN | CLOSING | CLOSED

record report_context =
  situation :: "string option"
  mood :: "string option"
  approach :: "string option"
  crisisType :: "string option"
  severity :: "rat option"
  actions :: "string list option"
  agentsInvolved :: "string list option"
  action :: "string option"
  conditions :: "(string \<times> string) list option"

record report_outcome =
  satisfaction :: "rat option"
  resolved :: "bool option"
  duration :: "rat option"
  o_effectiveness :: "rat option"
  feedback :: "string option"

record emotion =
  detected :: "string option"
  response :: "string option"

record message =
  m_type :: "string option"
  m_context :: "report_context option"
  m_outcome :: "report_outcome option"
  m_emotion :: "emotion option"
  m_learning :: "string option"
  m_agents :: "string list option"
  m_task :: "string option"
  m_coordination :: "string option"

text \<open>
  The result of \<open>JSON.parse\<close>: a \<open>SyntaxError\<close>, the value \<open>null\<close>, or an object (a
  number, a string, a boolean or an array has none of the properties read and counts as
  the object with every property absent).
\<close>

datatype parsed = ParseFailure | ParsedNull | ParsedObject message

subsection \<open>What the coordinator stores and sends\<close>

record customer_pattern =
  p_situation :: "string option"
  customerMood :: "string option"
  p_approach :: "string option"
  p_result :: "rat option"
  p_timestamp :: nat

record crisis =
  c_type :: "string option"
  c_severity :: "rat option"
  c_response :: "string list option"
  resolution :: "bool option"
  timeToResolve :: "rat option"
  c_agentsInvolved :: "string list option"

record success_pattern =
  sp_id :: string
  sp_agent :: agentId
  sp_action :: "string option"
  sp_conditions :: "(string \<times> string) list option"
  sp_result :: "report_outcome option"
  replicable :: bool

text \<open>The object \<open>{...pattern, confidence, variations}\<close> stored for a proven pattern.\<close>

record proven_pattern = success_pattern +
  confidence :: number
  variations :: "success_pattern list"

record collaboration =
  co_agents :: "string list option"
  co_task :: "string option"
  co_coordination :: "string option"
  co_outcome :: "report_outcome option"

record envelope =
  env_type :: string
  source :: agentId
  learning :: "string option"
  timestamp :: nat

text \<open>
  The methods that the class calls and the repository does not define
  (\<open>extractAgentId\<close> is applied by the caller of \<open>on_connection\<close>). Each is a parameter.
  They are taken to return normally, and to keep what they store and send in a state of
  their own, the component \<open>ext\<close> of the coordinator, of which nothing is assumed.
  \<open>calculateEffectiveness\<close> and \<open>analyzeTeamDynamics\<close> are functions of their argument.
\<close>

record 'x helpers =
  syncAgentKnowledge :: "'x \<Rightarrow> agentId \<Rightarrow> 'x"
  extractBestPractice :: "'x \<Rightarrow> customer_pattern \<Rightarrow> 'x"
  notifyRelevantAgents :: "'x \<Rightarrow> string option \<Rightarrow> customer_pattern \<Rightarrow> 'x"
  calculateEffectiveness :: "crisis \<Rightarrow> rat"
  updateCrisisPlaybook :: "'x \<Rightarrow> string option \<Rightarrow> crisis \<Rightarrow> 'x"
  distributeTraining :: "'x \<Rightarrow> string \<Rightarrow> crisis \<Rightarrow> 'x"
  findSimilarPatterns :: "'x \<Rightarrow> success_pattern \<Rightarrow> success_pattern list \<times> 'x"
  createSOP :: "'x \<Rightarrow> success_pattern \<Rightarrow> 'x"
  broadcastEmotionalLearning :: "'x \<Rightarrow> emotionalData \<Rightarrow> 'x"
  analyzeTeamDynamics :: "collaboration \<Rightarrow> rat"
  updateTeamFormations :: "'x \<Rightarrow> string list option \<Rightarrow> string option \<Rightarrow> 'x"

text \<open>
  The state of a coordinator: the \<open>Map\<close> of agents, the three maps of \<open>brain\<close> that the
  class writes, the shared memory, the messages handed to \<open>ws.send\<close> by
  \<open>broadcastLearning\<close> (recipient and message, oldest first), and the state of the absent
  methods. The fields \<open>knowledge\<close>, \<open>patterns\<close>, \<open>insights\<close>, \<open>learningRate\<close> and
  \<open>brain.operationalInsights\<close> are never written after construction and are left out.
\<close>

record 'x coordinator =
  agents :: "(agentId \<times> readyState) list"
  customerPatterns :: "(string option \<times> customer_pattern list) list"
  crisisResponses :: "(string option \<times> crisis) list"
  successPatterns :: "(string option \<times> proven_pattern) list"
  sharedMemory :: shared_memory
  sent :: "(agentId \<times> envelope) list"
  ext :: "'x"

definition new_CollectiveIntelligence :: "'x \<Rightarrow> 'x coordinator" where
  "new_CollectiveIntelligence x =
     \<lparr>agents = [], customerPatterns = [], crisisResponses = [], successPatterns = [],
      sharedMemory = new_SharedMemory, sent = [], ext = x\<rparr>"

subsection \<open>The handlers\<close>

text \<open>
  What a handler gives: the coordinator it leaves when it returns (\<open>Inr\<close>), or the
  error it raises with the coordinator as it is at that moment (\<open>Inl\<close>).
\<close>

type_synonym 'x result = "(error \<times> 'x coordinator) + 'x coordinator"

text \<open>The body of the \<open>connection\<close> listener, for the agent id extracted from the request.\<close>

definition on_connection :: "'x helpers \<Rightarrow> 'x coordinator \<Rightarrow> agentId \<Rightarrow> readyState \<Rightarrow> 'x coordinator" where
  "on_connection H st agentId ws =
     (let st1 = st\<lparr>agents := AList.update agentId ws (agents st)\<rparr>
      in st1\<lparr>ext := syncAgentKnowledge H (ext st1) agentId\<rparr>)"

definition learnFromCustomerInteraction ::
  "'x helpers \<Rightarrow> nat \<Rightarrow> 'x coordinator \<Rightarrow> agentId \<Rightarrow> report_context option \<Rightarrow> report_outcome option
     \<Rightarrow> 'x result" where
  "learnFromCustomerInteraction H now st agentId ctx outc =
     (case ctx of
        None \<Rightarrow> Inl (TypeError, st)
      | Some c \<Rightarrow>
         (case outc of
            None \<Rightarrow> Inl (TypeError, st)
          | Some out \<Rightarrow>
             (let pattern = \<lparr>p_situation = situation c, customerMood = mood c,
                             p_approach = approach c, p_result = satisfaction out,
                             p_timestamp = now\<rparr>;
                  cps1 = (if map_of (customerPatterns st) (situation c) = None
                          then AList.update (situation c) [] (customerPatterns st)
                          else customerPatterns st);
                  cps2 = (case map_of cps1 (situation c) of
                            None \<Rightarrow> cps1
                          | Some ps \<Rightarrow> AList.update (situation c) (ps @ [pattern]) cps1);
                  x1 = (case satisfaction out of
                          None \<Rightarrow> ext st
                        | Some s \<Rightarrow> if s > 8 / 10 then extractBestPractice H (ext st) pattern
                                    else ext st);
                  x2 = notifyRelevantAgents H x1 (situation c) pattern
              in Inr (st\<lparr>customerPatterns := cps2, ext := x2\<rparr>))))"

definition crisis_of :: "report_context \<Rightarrow> report_outcome \<Rightarrow> crisis" where
  "crisis_of c out =
     \<lparr>c_type = crisisType c, c_severity = severity c, c_response = actions c,
      resolution = resolved out, timeToResolve = duration out,
      c_agentsInvolved = agentsInvolved c\<rparr>"

definition learnCrisisManagement ::
  "'x helpers \<Rightarrow> 'x coordinator \<Rightarrow> agentId \<Rightarrow> report_context option \<Rightarrow> report_outcome option
     \<Rightarrow> 'x result" where
  "learnCrisisManagement H st agentId ctx outc =
     (case ctx of
        None \<Rightarrow> Inl (TypeError, st)
      | Some c \<Rightarrow>
         (case outc of
            None \<Rightarrow> Inl (TypeError, st)
          | Some out \<Rightarrow>
             (let crisis = crisis_of c out;
                  effectiveness = calculateEffectiveness H crisis;
                  st1 = (if effectiveness > 7 / 10
                         then st\<lparr>crisisResponses :=
                                   AList.update (crisisType c) crisis (crisisResponses st),
                                 ext := updateCrisisPlaybook H (ext st) (crisisType c) crisis\<rparr>
                         else st)
              in Inr (st1\<lparr>ext := distributeTraining H (ext st1) ''crisis'' crisis\<rparr>))))"

text \<open>\<open>Date.now()\<close> printed in a template literal: the decimal digits of the number.\<close>

fun digits :: "nat \<Rightarrow> string" where
  "digits n = (if n < 10 then [char_of (48 + n)]
               else digits (n div 10) @ [char_of (48 + n mod 10)])"

definition success_pattern_of ::
  "nat \<Rightarrow> agentId \<Rightarrow> report_context \<Rightarrow> report_outcome option \<Rightarrow> success_pattern" where
  "success_pattern_of now agentId c outc =
     \<lparr>sp_id = ''success_'' @ digits now, sp_agent = agentId, sp_action = action c,
      sp_conditions = conditions c, sp_result = outc, replicable = True\<rparr>"

definition recordSuccessPattern ::
  "'x helpers \<Rightarrow> nat \<Rightarrow> 'x coordinator \<Rightarrow> agentId \<Rightarrow> report_context option \<Rightarrow> report_outcome option
     \<Rightarrow> 'x result" where
  "recordSuccessPattern H now st agentId ctx outc =
     (case ctx of
        None \<Rightarrow> Inl (TypeError, st)
      | Some c \<Rightarrow>
         (let pattern = success_pattern_of now agentId c outc;
              found = findSimilarPatterns H (ext st) pattern;
              similarity = fst found;
              st1 = st\<lparr>ext := snd found\<rparr>
          in if length similarity > 3
             then Inr (st1\<lparr>successPatterns :=
                            AList.update (sp_action pattern)
                              (success_pattern.extend pattern
                                 \<lparr>confidence = js_div_nat (length similarity) (length (agents st1)),
                                  variations = similarity\<rparr>)
                              (successPatterns st1),
                          ext := createSOP H (ext st1) pattern\<rparr>)
             else Inr st1))"

definition updateEmotionalIntelligence ::
  "'x helpers \<Rightarrow> 'x coordinator \<Rightarrow> agentId \<Rightarrow> emotion option \<Rightarrow> report_outcome option
     \<Rightarrow> 'x result" where
  "updateEmotionalIntelligence H st agentId emo outc =
     (case emo of
        None \<Rightarrow> Inl (TypeError, st)
      | Some e \<Rightarrow>
         (case outc of
            None \<Rightarrow> Inl (TypeError, st)
          | Some out \<Rightarrow>
             (let emotionalData = \<lparr>e_detected = detected e, e_response = response e,
                                   e_effectiveness = o_effectiveness out,
                                   e_customerFeedback = feedback out\<rparr>
              in Inr (st\<lparr>sharedMemory := updateEmotionalMatrix (sharedMemory st) emotionalData,
                         ext := broadcastEmotionalLearning H (ext st) emotionalData\<rparr>))))"

definition enhanceCollaborationPatterns ::
  "'x helpers \<Rightarrow> 'x coordinator \<Rightarrow> message \<Rightarrow> 'x result" where
  "enhanceCollaborationPatterns H st data =
     (let collaboration = \<lparr>co_agents = m_agents data, co_task = m_task data,
                           co_coordination = m_coordination data, co_outcome = m_outcome data\<rparr>;
          teamEffectiveness = analyzeTeamDynamics H collaboration
      in if teamEffectiveness > 85 / 100
         then Inr (st\<lparr>ext := updateTeamFormations H (ext st) (co_agents collaboration)
                               (co_task collaboration)\<rparr>)
         else Inr st)"

subsection \<open>broadcastLearning and processAgentCommunication\<close>

definition learning_message :: "nat \<Rightarrow> agentId \<Rightarrow> string option \<Rightarrow> envelope" where
  "learning_message now sourceAgent l =
     \<lparr>env_type = ''COLLECTIVE_LEARNING'', source = sourceAgent, learning = l, timestamp = now\<rparr>"

text \<open>The agents the \<open>forEach\<close> of \<open>broadcastLearning\<close> sends to, in the order of the map.\<close>

definition recipients :: "(agentId \<times> readyState) list \<Rightarrow> agentId \<Rightarrow> agentId list" where
  "recipients ags sourceAgent =
     map fst (filter (\<lambda>(agentId, ws). agentId \<noteq> sourceAgent \<and> ws = OPEN) ags)"

definition broadcastLearning ::
  "nat \<Rightarrow> 'x coordinator \<Rightarrow> agentId \<Rightarrow> string option \<Rightarrow> 'x coordinator" where
  "broadcastLearning now st sourceAgent l =
     st\<lparr>sent := sent st
          @ map (\<lambda>agentId. (agentId, learning_message now sourceAgent l))
              (recipients (agents st) sourceAgent)\<rparr>"

text \<open>
  \<open>now\<close> is the clock as the handler reads it, \<open>later\<close> as \<open>broadcastLearning\<close> reads it.
  A handler that raises ends the method: nothing is broadcast.
\<close>

definition dispatch ::
  "'x helpers \<Rightarrow> nat \<Rightarrow> 'x coordinator \<Rightarrow> agentId \<Rightarrow> message \<Rightarrow> 'x result" where
  "dispatch H now st agentId data =
     (if m_type data = Some ''CUSTOMER_INTERACTION''
        then learnFromCustomerInteraction H now st agentId (m_context data) (m_outcome data)
      else if m_type data = Some ''CRISIS_HANDLED''
        then learnCrisisManagement H st agentId (m_context data) (m_outcome data)
      else if m_type data = Some ''SUCCESS_PATTERN''
        then recordSuccessPattern H now st agentId (m_context data) (m_outcome data)
      else if m_type data = Some ''EMOTIONAL_READ''
        then updateEmotionalIntelligence H st agentId (m_emotion data) (m_outcome data)
      else if m_type data = Some ''COLLABORATIVE_SOLUTION''
        then enhanceCollaborationPatterns H st data
      else Inr st)"

definition processAgentCommunication ::
  "'x helpers \<Rightarrow> nat \<Rightarrow> nat \<Rightarrow> 'x coordinator \<Rightarrow> agentId \<Rightarrow> message \<Rightarrow> 'x result" where
  "processAgentCommunication H now later st agentId data =
     (case dispatch H now st agentId data of
        Inl e \<Rightarrow> Inl e
      | Inr st1 \<Rightarrow> Inr (broadcastLearning later st1 agentId (m_learning data)))"

text \<open>
  The \<open>message\<close> listener of a connection: \<open>JSON.parse\<close> (the parameter \<open>parse\<close>), then
  \<open>processAgentCommunication\<close>, with no handler for what either raises.
\<close>

definition on_message ::
  "'x helpers \<Rightarrow> (string \<Rightarrow> parsed) \<Rightarrow> nat \<Rightarrow> nat \<Rightarrow> 'x coordinator \<Rightarrow> agentId \<Rightarrow> string
     \<Rightarrow> 'x result" where
  "on_message H parse now later st agentId raw =
     (case parse raw of
        ParseFailure \<Rightarrow> Inl (SyntaxError, st)
      | ParsedNull \<Rightarrow> Inl (TypeError, st)
      | ParsedObject data \<Rightarrow> processAgentCommunication H now later st agentId data)"


subsection \<open>The absent methods as the spec describes them\<close>

text \<open>
  Modelled from the spec: \<open>calculateEffectiveness\<close> is called by \<open>learnCrisisManagement\<close>
  and defined nowhere in the repository. The spec (4.3) asks for a deterministic function
  of \<open>resolved\<close> (a gate: an unresolved crisis never qualifies), inversely related to the
  duration and positively related to the severity; this is one such function.
\<close>

definition calculateEffectiveness_spec :: "crisis \<Rightarrow> rat" where
  "calculateEffectiveness_spec cr =
     (if resolution cr = Some True
      then (case (c_severity cr, timeToResolve cr) of
              (Some s, Some d) \<Rightarrow> s / (1 + d / 100)
            | _ \<Rightarrow> 0)
      else 0)"

text \<open>
  Modelled from the spec: \<open>findSimilarPatterns\<close> is called by \<open>recordSuccessPattern\<close> and
  defined nowhere in the repository. The spec (4.4) calls two reports similar when they
  have the same \<open>action\<close>, and counts the report at hand among the similar ones (four
  reports of an action promote it). The state of the method is the list of the success
  reports received so far.
\<close>

definition findSimilarPatterns_spec ::
  "success_pattern list \<Rightarrow> success_pattern \<Rightarrow> success_pattern list \<times> success_pattern list" where
  "findSimilarPatterns_spec seen p =
     (filter (\<lambda>q. sp_action q = sp_action p) (seen @ [p]), seen @ [p])"

text \<open>
  Modelled from the spec: \<open>updateCrisisPlaybook\<close> is called by \<open>learnCrisisManagement\<close>
  (under the comment \<open>Create crisis playbook\<close>) and defined nowhere in the repository.
  The spec (3, 4.3) has the playbook hold, for each crisis type, the most effective report
  seen so far: a report becomes the entry of its type when there is none, replaces the
  entry when it is strictly more effective, and is dropped otherwise.
\<close>

definition updateCrisisPlaybook_spec ::
  "(crisis \<Rightarrow> rat) \<Rightarrow> (string option \<times> crisis) list \<Rightarrow> string option \<Rightarrow> crisis
     \<Rightarrow> (string option \<times> crisis) list" where
  "updateCrisisPlaybook_spec eff pb kind cr =
     (case map_of pb kind of
        None \<Rightarrow> AList.update kind cr pb
      | Some stored \<Rightarrow> if eff cr > eff stored then AList.update kind cr pb else pb)"

text \<open>
  The state of the absent methods as the spec describes them: the success reports
  received so far and the crisis playbook.
\<close>

record spec_state =
  seen :: "success_pattern list"
  playbook :: "(string option \<times> crisis) list"

definition new_spec_state :: spec_state where
  "new_spec_state = \<lparr>seen = [], playbook = []\<rparr>"

text \<open>
  Modelled from the spec: the absent methods, for an effectiveness function \<open>eff\<close>.
  \<open>findSimilarPatterns\<close> and \<open>updateCrisisPlaybook\<close> are as above. The methods that
  notify, train and broadcast, and those that file best practices, procedures and team
  formations, keep nothing that the claims read: they leave the state as it is.
  \<open>analyzeTeamDynamics\<close> is the reported satisfaction (a monotonic function of the
  reported success, spec 4.6), 0 when absent.
\<close>

definition spec_helpers_for :: "(crisis \<Rightarrow> rat) \<Rightarrow> spec_state helpers" where
  "spec_helpers_for eff =
     \<lparr>syncAgentKnowledge = (\<lambda>x a. x),
      extractBestPractice = (\<lambda>x p. x),
      notifyRelevantAgents = (\<lambda>x s p. x),
      calculateEffectiveness = eff,
      updateCrisisPlaybook =
        (\<lambda>x t c. x\<lparr>playbook := updateCrisisPlaybook_spec eff (playbook x) t c\<rparr>),
      distributeTraining = (\<lambda>x k c. x),
      findSimilarPatterns =
        (\<lambda>x p. (fst (findSimilarPatterns_spec (seen x) p),
                x\<lparr>seen := snd (findSimilarPatterns_spec (seen x) p)\<rparr>)),
      createSOP = (\<lambda>x p. x),
      broadcastEmotionalLearning = (\<lambda>x d. x),
      analyzeTeamDynamics =
        (\<lambda>c. case co_outcome c of None \<Rightarrow> 0
              | Some out \<Rightarrow> (case satisfaction out of None \<Rightarrow> 0 | Some s \<Rightarrow> s)),
      updateTeamFormations = (\<lambda>x a t. x)\<rparr>"

definition spec_helpers :: "spec_state helpers" where
  "spec_helpers = spec_helpers_for calculateEffectiveness_spec"

text \<open>The spec's confidence of a promoted pattern: the quotient clamped to \<open>[0, 1]\<close>.\<close>

definition clamped_confidence :: "nat \<Rightarrow> nat \<Rightarrow> rat" where
  "clamped_confidence similarCount activeAgentCount =
     min 1 (max 0 (of_nat similarCount / of_nat activeAgentCount))"

text \<open>
  A run of crisis reports through \<open>learnCrisisManagement\<close> (an error would end the run,
  as an exception that leaves a listener ends the process), and the reports of the run
  that qualify for the store, oldest first.
\<close>

definition qualifying :: "'x helpers \<Rightarrow> (report_context \<times> report_outcome) list \<Rightarrow> crisis list" where
  "qualifying H rs =
     filter (\<lambda>cr. calculateEffectiveness H cr > 7 / 10) (map (\<lambda>(c, out). crisis_of c out) rs)"

fun learn_crises ::
  "'x helpers \<Rightarrow> 'x coordinator \<Rightarrow> agentId \<Rightarrow> (report_context \<times> report_outcome) list
     \<Rightarrow> 'x result" where
  "learn_crises H st agentId [] = Inr st"
| "learn_crises H st agentId ((c, out) # rest) =
     (case learnCrisisManagement H st agentId (Some c) (Some out) of
        Inl e \<Rightarrow> Inl e
      | Inr st1 \<Rightarrow> learn_crises H st1 agentId rest)"

text \<open>
  The reports of a run that carry a given \<open>crisisType\<close>, as \<open>learnCrisisManagement\<close>
  builds them, oldest first, and those of them that an effectiveness function rates
  above 0.7.
\<close>

definition reports_of_type ::
  "string option \<Rightarrow> (report_context \<times> report_outcome) list \<Rightarrow> crisis list" where
  "reports_of_type k rs = filter (\<lambda>cr. c_type cr = k) (map (\<lambda>(c, out). crisis_of c out) rs)"

definition qualifying_of_type ::
  "(crisis \<Rightarrow> rat) \<Rightarrow> string option \<Rightarrow> (report_context \<times> report_outcome) list \<Rightarrow> crisis list" where
  "qualifying_of_type eff k rs = filter (\<lambda>cr. eff cr > 7 / 10) (reports_of_type k rs)"

text \<open>The agents of the map whose socket is open: the agents connected at the moment.\<close>

definition connected :: "'x coordinator \<Rightarrow> agentId set" where
  "connected st = {agentId. (agentId, OPEN) \<in> set (agents st)}"

text \<open>The messages a step has added to the log of sent messages.\<close>

definition newly_sent :: "'x coordinator \<Rightarrow> 'x coordinator \<Rightarrow> (agentId \<times> envelope) list" where
  "newly_sent st st' = drop (length (sent st)) (sent st')"

definition report_kinds :: "string list" where
  "report_kinds = [''CUSTOMER_INTERACTION'', ''CRISIS_HANDLED'', ''SUCCESS_PATTERN'',
                   ''EMOTIONAL_READ'', ''COLLABORATIVE_SOLUTION'']"

text \<open>The stores of a coordinator: everything but the log of sent messages.\<close>

definition same_stores :: "'x coordinator \<Rightarrow> 'x coordinator \<Rightarrow> bool" where
  "same_stores st st' =
     (agents st' = agents st \<and> customerPatterns st' = customerPatterns st
      \<and> crisisResponses st' = crisisResponses st \<and> successPatterns st' = successPatterns st
      \<and> sharedMemory st' = sharedMemory st \<and> ext st' = ext st)"


subsection \<open>Empty objects, runs of success reports, example inputs\<close>

text \<open>The object with every property absent.\<close>

definition empty_context :: report_context where
  "empty_context =
     \<lparr>situation = None, mood = None, approach = None, crisisType = None, severity = None,
      actions = None, agentsInvolved = None, action = None, conditions = None\<rparr>"

definition empty_outcome :: report_outcome where
  "empty_outcome =
     \<lparr>satisfaction = None, resolved = None, duration = None, o_effectiveness = None,
      feedback = None\<rparr>"

definition empty_message :: message where
  "empty_message =
     \<lparr>m_type = None, m_context = None, m_outcome = None, m_emotion = None, m_learning = None,
      m_agents = None, m_task = None, m_coordination = None\<rparr>"

text \<open>A run of success reports (clock, agent, context, outcome) through \<open>recordSuccessPattern\<close>.\<close>

fun record_all ::
  "'x helpers \<Rightarrow> 'x coordinator \<Rightarrow> (nat \<times> agentId \<times> report_context \<times> report_outcome option) list
     \<Rightarrow> 'x result" where
  "record_all H st [] = Inr st"
| "record_all H st ((now, agentId, c, outc) # rest) =
     (case recordSuccessPattern H now st agentId (Some c) outc of
        Inl e \<Rightarrow> Inl e
      | Inr st1 \<Rightarrow> record_all H st1 rest)"

text \<open>The patterns that \<open>recordSuccessPattern\<close> builds for the reports of a run.\<close>

definition patterns_of ::
  "(nat \<times> agentId \<times> report_context \<times> report_outcome option) list \<Rightarrow> success_pattern list" where
  "patterns_of rs = map (\<lambda>(now, agentId, c, outc). success_pattern_of now agentId c outc) rs"

text \<open>The reports of a run with a given \<open>action\<close>: the similar reports of the spec.\<close>

definition similar_reports ::
  "string option \<Rightarrow> (nat \<times> agentId \<times> report_context \<times> report_outcome option) list
     \<Rightarrow> success_pattern list" where
  "similar_reports a rs = filter (\<lambda>p. sp_action p = a) (patterns_of rs)"

text \<open>
  The record stored for an action whose similar reports are \<open>similarity\<close>, the last of
  them being the report that was recorded last.
\<close>

definition promoted ::
  "success_pattern list \<Rightarrow> nat \<Rightarrow> proven_pattern" where
  "promoted similarity agentCount =
     success_pattern.extend (last similarity)
       \<lparr>confidence = js_div_nat (length similarity) agentCount, variations = similarity\<rparr>"

text \<open>Example inputs of the scenarios below.\<close>

definition dessert :: report_context where
  "dessert = empty_context\<lparr>action := Some ''offer_dessert'',
                            conditions := Some [(''mood'', ''happy'')]\<rparr>"

definition lone_agent :: "spec_state coordinator" where
  "lone_agent = on_connection spec_helpers (new_CollectiveIntelligence new_spec_state) ''marcus'' OPEN"

definition kitchen_fire :: "rat \<Rightarrow> report_context \<times> report_outcome" where
  "kitchen_fire sev =
     (empty_context\<lparr>crisisType := Some ''kitchen_fire'', severity := Some sev\<rparr>,
      empty_outcome\<lparr>resolved := Some True, duration := Some 0\<rparr>)"

text \<open>Three agents have connected; the socket of the third is closed by now.\<close>

definition two_agents :: "spec_state coordinator" where
  "two_agents =
     on_connection spec_helpers
       (on_connection spec_helpers
          (on_connection spec_helpers (new_CollectiveIntelligence new_spec_state) ''marcus'' OPEN)
          ''sophia'' OPEN)
       ''chen'' CLOSED"


section \<open>The predictive engine (class PredictiveEngine)\<close>

subsection \<open>Predictions and proactive actions\<close>

text \<open>
  The objects that \<open>predictNextOrder\<close>, \<open>predictArrivalTime\<close> and
  \<open>predictSpecialRequests\<close> return, and the bundle that \<open>predictCustomerNeeds\<close> builds
  of them. \<open>predictSatisfaction\<close> and \<open>predictChurnRisk\<close> are not defined in the
  repository: the churn risk is the number that \<open>generateProactiveActions\<close> compares, the
  satisfaction an object that may have a \<open>confidence\<close>.
\<close>

record next_order =
  no_items :: "string list"
  no_confidence :: rat
  no_reasoning :: "string option"

record arrival =
  estimatedTime :: string
  probability :: rat
  alternativeTimes :: "string list"

record special_request =
  sr_type :: string
  sr_action :: string
  sr_confidence :: rat

record satisfaction_prediction =
  sat_score :: rat
  sat_confidence :: "rat option"

record predictions =
  nextOrder :: "next_order option"
  arrivalTime :: "arrival option"
  specialRequest :: "special_request list option"
  pr_satisfaction :: "satisfaction_prediction option"
  churnRisk :: "rat option"













subsection \<open>calculateConfidence\<close>

definition weights :: "rat list" where
  "weights = [3 / 10, 2 / 10, 2 / 10, 15 / 100, 15 / 100]"

text \<open>\<open>weights[i] || 0.1\<close>: no weight of the array is 0, so 0.1 is the weight past its end.\<close>

definition weight_at :: "nat \<Rightarrow> rat" where
  "weight_at i = (if i < length weights then weights ! i else 1 / 10)"

text \<open>The \<open>reduce\<close> of \<open>calculateConfidence\<close> from position \<open>i\<close> on, with the running sum.\<close>

fun confidence_reduce :: "rat list \<Rightarrow> nat \<Rightarrow> rat \<Rightarrow> rat" where
  "confidence_reduce [] i acc = acc"
| "confidence_reduce (conf # rest) i acc = confidence_reduce rest (i + 1) (acc + conf * weight_at i)"

text \<open>
  \<open>.filter(p => p?.confidence).map(p => p.confidence)\<close> on the readings \<open>p?.confidence\<close>
  of the values of the bundle: a reading that is absent or 0 is dropped.
\<close>

definition present :: "rat option list \<Rightarrow> rat list" where
  "present readings = List.map_filter (\<lambda>r. case r of None \<Rightarrow> None
                                            | Some c \<Rightarrow> if c = 0 then None else Some c) readings"

definition calculateConfidence_of :: "rat option list \<Rightarrow> rat" where
  "calculateConfidence_of readings =
     (let confidences = present readings
      in if length confidences = 0 then 0 else confidence_reduce confidences 0 0)"

text \<open>
  \<open>Object.values(predictions)\<close> of the bundle, each value read at \<open>?.confidence\<close>: the
  arrival-time object, the array of special requests and the churn risk have no such
  property.
\<close>

definition confidence_readings :: "predictions \<Rightarrow> rat option list" where
  "confidence_readings p =
     [map_option no_confidence (nextOrder p), None, None,
      (case pr_satisfaction p of None \<Rightarrow> None | Some s \<Rightarrow> sat_confidence s), None]"

definition calculateConfidence :: "predictions \<Rightarrow> rat" where
  "calculateConfidence p = calculateConfidence_of (confidence_readings p)"

text \<open>
  The spec's composite confidence: each sub-prediction of the bundle has its fixed
  weight, the absent ones are left out, and the weights of the others are renormalized
  to sum to 1.
\<close>

definition renormalized_confidence :: "rat option list \<Rightarrow> rat" where
  "renormalized_confidence readings =
     (let kept = filter (\<lambda>(w, r). case r of None \<Rightarrow> False | Some c \<Rightarrow> c \<noteq> 0)
                        (zip weights readings)
      in (\<Sum>(w, r) \<leftarrow> kept. w * the r) / (\<Sum>(w, r) \<leftarrow> kept. w))"

subsection \<open>predictNextOrder and forecastDemand\<close>

text \<open>
  What the two methods call and the repository does not define, and what they call of
  TensorFlow.js; each is a parameter. A tensor is the list of its numbers.
  \<open>customerBehavior_predict\<close> is \<open>tf.tensor3d\<close> followed by the model's \<open>predict\<close>,
  \<open>prediction_max\<close> is \<open>prediction.max().dataSync()[0]\<close>, \<open>timeFactors\<close> the values of the
  object of that name, \<open>demandForecast_predict\<close> the model's \<open>predict\<close> followed by
  \<open>data()\<close>. A library call may raise.
\<close>

record 'h engine_env =
  getCustomerHistory :: "string \<Rightarrow> 'h list"
  extractOrderPatterns :: "'h list \<Rightarrow> rat list"
  timeFactors :: "rat list"
  customerBehavior_predict :: "rat list \<Rightarrow> error + rat list"
  prediction_max :: "rat list \<Rightarrow> rat"
  decodePrediction :: "rat list \<Rightarrow> string list"
  explainPrediction :: "rat list \<Rightarrow> rat list \<Rightarrow> string"
  getHistoricalDemand :: "rat list list"
  tensor2d :: "rat list list \<Rightarrow> error + rat list list"
  demandForecast_predict :: "rat list list \<Rightarrow> error + rat list"
  calculateForecastConfidence :: "rat list list \<Rightarrow> nat \<Rightarrow> rat"
  getTopItems :: "string list"
  forecastItemDemand :: "string \<Rightarrow> rat"

definition predictNextOrder :: "'h engine_env \<Rightarrow> string \<Rightarrow> error + next_order" where
  "predictNextOrder E customerId =
     (let history = getCustomerHistory E customerId
      in if length history < 3
         then Inr \<lparr>no_items = [], no_confidence = 0, no_reasoning = None\<rparr>
         else (let patterns = extractOrderPatterns E history
               in case customerBehavior_predict E (patterns @ timeFactors E) of
                    Inl e \<Rightarrow> Inl e
                  | Inr prediction \<Rightarrow>
                      Inr \<lparr>no_items = decodePrediction E prediction,
                           no_confidence = prediction_max E prediction,
                           no_reasoning = Some (explainPrediction E patterns (timeFactors E))\<rparr>))"

record day_forecast =
  df_date :: nat
  expectedCovers :: "int option"
  peakHour :: "int option"
  df_confidence :: rat

record demand_predictions =
  daily :: "day_forecast list"
  hourly :: "unit list"
  dp_items :: "(string \<times> rat) list"

text \<open>
  \<open>Math.round(forecastData[k])\<close>: the nearest integer, halves upwards; \<open>NaN\<close> (here
  \<open>None\<close>) when the data has no element \<open>k\<close>.
\<close>

definition round_at :: "rat list \<Rightarrow> nat \<Rightarrow> int option" where
  "round_at forecastData k =
     (if k < length forecastData then Some \<lfloor>forecastData ! k + 1 / 2\<rfloor> else None)"

text \<open>
  \<open>today\<close> is the date at the call, in days; the argument \<open>timeframe\<close> is not read by the
  method.
\<close>

definition forecastDemand :: "'h engine_env \<Rightarrow> string \<Rightarrow> nat \<Rightarrow> error + demand_predictions" where
  "forecastDemand E timeframe today =
     (let historicalData = getHistoricalDemand E
      in case tensor2d E historicalData of
           Inl e \<Rightarrow> Inl e
         | Inr timeSeries \<Rightarrow>
            (case demandForecast_predict E timeSeries of
               Inl e \<Rightarrow> Inl e
             | Inr forecastData \<Rightarrow>
                 Inr \<lparr>daily = map (\<lambda>i. \<lparr>df_date = today + i,
                                         expectedCovers = round_at forecastData (i * 2),
                                         peakHour = round_at forecastData (i * 2 + 1),
                                         df_confidence =
                                           calculateForecastConfidence E historicalData i\<rparr>)
                                   [0..<7],
                      hourly = [],
                      dp_items = fold (\<lambda>item m. AList.update item (forecastItemDemand E item) m)
                                   (getTopItems E) []\<rparr>))"

text \<open>
  Two environments with no day of demand history. In the first, \<open>tf.tensor2d\<close> is as in
  TensorFlow.js, which infers the shape \<open>[0]\<close> for the empty array and refuses a shape
  that is not of two dimensions. In the second every library call succeeds and the
  confidence of a forecast is a constant that is not 0.
\<close>

definition no_history_strict :: "unit engine_env" where
  "no_history_strict =
     \<lparr>getCustomerHistory = (\<lambda>c. []), extractOrderPatterns = (\<lambda>h. []), timeFactors = [],
      customerBehavior_predict = (\<lambda>x. Inr [0]), prediction_max = (\<lambda>x. 0),
      decodePrediction = (\<lambda>x. []), explainPrediction = (\<lambda>p f. []),
      getHistoricalDemand = [],
      tensor2d = (\<lambda>rows. if rows = [] then Inl LibraryError else Inr rows),
      demandForecast_predict = (\<lambda>x. Inr []),
      calculateForecastConfidence = (\<lambda>h i. 1 / 2),
      getTopItems = [], forecastItemDemand = (\<lambda>i. 0)\<rparr>"

definition no_history_lenient :: "unit engine_env" where
  "no_history_lenient = no_history_strict\<lparr>tensor2d := (\<lambda>rows. Inr rows)\<rparr>"



section \<open>Verification\<close>

subsection \<open>Strongest connections of a node\<close>










subsection \<open>The emotional matrix\<close>




















text \<open>A submission without effectiveness leaves \<open>NaN\<close> in its cell, also after later ones.\<close>

lemma absent_sample_gives_NaN:
  "map_option averageEffectiveness
     (map_of (emotionalMatrix (submit_all new_SharedMemory
         [(emotional_read ''angry'' ''apologize'' 1)\<lparr>e_effectiveness := None\<rparr>,
          emotional_read ''angry'' ''apologize'' 1]))
       ''angry_apologize'')
    = Some (Some NaN)"
  by (simp add: submit_all_def updateEmotionalMatrix_def new_SharedMemory_def
      matrix_key_def template_def emotional_read_def average_def Let_def)


subsection \<open>The sentiment of a customer profile\<close>

lemma weighted_reduce_sum:
  "weighted_reduce n xs i acc =
     acc + (\<Sum>(w, x) \<leftarrow> zip (map (\<lambda>k. of_nat (k + 1) / of_nat n) [i..<i + length xs]) xs. w * x)"
proof (induction xs arbitrary: i acc)
  case Nil
  show ?case by simp
next
  case (Cons x xs)
  have "[i..<i + length (x # xs)] = i # [Suc i..<Suc i + length xs]"
    by (simp add: upt_rec)
  then show ?case
    by (simp add: Cons.IH mult.commute add.assoc)
qed

lemma sum_list_upto_succ:
  "sum_list (map (\<lambda>k. (of_nat (k + 1) :: rat)) [0..<n]) = of_nat (n * (n + 1)) / 2"
  by (induction n) (simp_all add: field_simps)

lemma sum_list_map_divide:
  "sum_list (map (\<lambda>k. f k / c) ks) = sum_list (map f ks) / (c :: rat)"
  by (induction ks) (simp_all add: add_divide_distrib)

lemma sum_list_recency_weights:
  "0 < n \<Longrightarrow> sum_list (recency_weights n) = of_nat (n + 1) / 2"
proof -
  assume n: "0 < n"
  have "sum_list (recency_weights n)
          = sum_list (map (\<lambda>k. (of_nat (k + 1) :: rat)) [0..<n]) / of_nat n"
    unfolding recency_weights_def by (rule sum_list_map_divide)
  also have "\<dots> = (of_nat (n * (n + 1)) / 2) / of_nat n"
    by (simp only: sum_list_upto_succ)
  also have "\<dots> = of_nat (n + 1) / 2"
    using n by (simp add: field_simps)
  finally show ?thesis .
qed

lemma recency_weights_increasing: "sorted_wrt (<) (recency_weights n)"
proof (cases "n = 0")
  case True
  then show ?thesis by (simp add: recency_weights_def)
next
  case False
  then have "sorted_wrt (\<lambda>j k. (of_nat (j + 1) :: rat) / of_nat n < of_nat (k + 1) / of_nat n)
               [0..<n]"
    by (intro sorted_wrt_mono_rel [OF _ sorted_wrt_upt]) (simp add: divide_strict_right_mono)
  then show ?thesis
    unfolding recency_weights_def by (simp add: sorted_wrt_map)
qed

lemma weighted_sum_as_mean:
  "xs \<noteq> [] \<Longrightarrow>
   weighted_reduce (length xs) xs 0 0
     = recency_weighted_mean xs * (of_nat (length xs + 1) / 2)"
proof -
  assume ne: "xs \<noteq> []"
  let ?S = "\<Sum>(w, x) \<leftarrow> zip (recency_weights (length xs)) xs. w * x"
  have w: "sum_list (recency_weights (length xs)) = of_nat (length xs + 1) / 2"
    using ne by (simp add: sum_list_recency_weights)
  have "weighted_reduce (length xs) xs 0 0 = ?S"
    by (simp add: weighted_reduce_sum recency_weights_def)
  also have "\<dots> = (?S / sum_list (recency_weights (length xs))) * (of_nat (length xs + 1) / 2)"
    unfolding w by simp
  finally show ?thesis
    by (simp add: recency_weighted_mean_def weighted_mean_def)
qed

lemma calculateSentiment_formula:
  "history \<noteq> [] \<Longrightarrow>
   calculateSentiment history =
     Num (recency_weighted_mean (slice_last10 (map sentiment_or_0 history))
          * (of_nat (length (slice_last10 (map sentiment_or_0 history)) + 1)
             / of_nat (2 * length (slice_last10 (map sentiment_or_0 history)))))"
proof -
  assume h: "history \<noteq> []"
  let ?recent = "slice_last10 (map sentiment_or_0 history)"
  have ne: "?recent \<noteq> []" using h by (cases history) (simp_all add: slice_last10_def)
  then have "length ?recent \<noteq> 0" by simp
  then show ?thesis
    unfolding calculateSentiment_def Let_def
    by (simp add: weighted_sum_as_mean[OF ne] js_div_len_def)
qed

lemma slice_last10_append: "10 \<le> length ys \<Longrightarrow> slice_last10 (xs @ ys) = slice_last10 ys"
  by (simp add: slice_last10_def)

lemma calculateSentiment_window:
  "10 \<le> length ys \<Longrightarrow> calculateSentiment (xs @ ys) = calculateSentiment ys"
  by (simp add: calculateSentiment_def slice_last10_append)

lemma extractPreferences_keeps:
  "interactions (extractPreferences tools p i) = interactions p
   \<and> sentiment (extractPreferences tools p i) = sentiment p"
  by (simp add: extractPreferences_def Let_def split: option.splits)


lemma calculateSentiment_slice:
  "calculateSentiment (slice_last10 history) = calculateSentiment history"
  by (simp add: calculateSentiment_def slice_last10_def drop_map)

text \<open>
  C5 (as amended). After \<open>updateCustomerProfile\<close> the stored sentiment is computed from
  the sentiment values of the last ten interactions only (of all of them while there are
  fewer than ten), with weights \<open>1/n, 2/n, ..., n/n\<close> that increase strictly with recency.
  It is the weighted sum divided by the number \<open>n\<close> of values, not by the sum of the
  weights: the recency-weighted mean of the window multiplied by \<open>(n + 1) / (2 n)\<close>.
  From the tenth interaction on, no interaction before the last ten contributes: the
  eleventh drops the first.
\<close>

theorem updateCustomerProfile_sentiment:
  assumes "updateCustomerProfile tools sm customerId i = (p, sm')"
  shows "let history = interactions (profile_of sm customerId) @ [i];
             recent = slice_last10 (map sentiment_or_0 history);
             n = length recent
         in interactions p = history
          \<and> map_of (customerProfiles sm') customerId = Some p
          \<and> n = min 10 (length history)
          \<and> sorted_wrt (<) (recency_weights n)
          \<and> sentiment p = Num (recency_weighted_mean recent * (of_nat (n + 1) / of_nat (2 * n)))
          \<and> sentiment p = calculateSentiment (slice_last10 history)
          \<and> (10 \<le> length history \<longrightarrow>
               (\<forall>earlier. calculateSentiment (earlier @ slice_last10 history) = sentiment p))"
proof -
  let ?history = "interactions (profile_of sm customerId) @ [i]"
  let ?p2 = "(profile_of sm customerId)\<lparr>interactions := ?history,
               sentiment := calculateSentiment ?history\<rparr>"
  from assms have p: "p = extractPreferences tools ?p2 i"
    and sm': "sm' = sm\<lparr>customerProfiles := AList.update customerId p (customerProfiles sm)\<rparr>"
    by (auto simp: updateCustomerProfile_def Let_def)
  have i: "interactions p = ?history" and s: "sentiment p = calculateSentiment ?history"
    using extractPreferences_keeps [of tools ?p2 i] by (simp_all add: p)
  have "?history \<noteq> []" by simp
  note f = calculateSentiment_formula [OF this]
  have n: "length (slice_last10 (map sentiment_or_0 ?history)) = min 10 (length ?history)"
    by (simp add: slice_last10_def)
  have w: "calculateSentiment (earlier @ slice_last10 ?history) = sentiment p"
    if "10 \<le> length ?history" for earlier
  proof -
    from that have "10 \<le> length (slice_last10 ?history)"
      by (simp add: slice_last10_def)
    then show ?thesis
      by (simp only: calculateSentiment_window calculateSentiment_slice s)
  qed
  have main: "interactions p = ?history
          \<and> map_of (customerProfiles sm') customerId = Some p
          \<and> length (slice_last10 (map sentiment_or_0 ?history)) = min 10 (length ?history)
          \<and> sorted_wrt (<) (recency_weights (length (slice_last10 (map sentiment_or_0 ?history))))
          \<and> sentiment p = Num (recency_weighted_mean (slice_last10 (map sentiment_or_0 ?history))
               * (of_nat (length (slice_last10 (map sentiment_or_0 ?history)) + 1)
                  / of_nat (2 * length (slice_last10 (map sentiment_or_0 ?history)))))
          \<and> sentiment p = calculateSentiment (slice_last10 ?history)"
    using i s f n recency_weights_increasing
    by (simp add: sm' update_conv' calculateSentiment_slice)
  show ?thesis
    unfolding Let_def using main w by blast
qed

theorem updateCustomerProfile_sentiment_witness:
  "updateCustomerProfile no_tools ten_visits ''c1'' (visit 1)
     = (fst (updateCustomerProfile no_tools ten_visits ''c1'' (visit 1)),
        snd (updateCustomerProfile no_tools ten_visits ''c1'' (visit 1)))
   \<and> interactions (profile_of ten_visits ''c1'') @ [visit 1] = visit (- 1) # replicate 10 (visit 1)
   \<and> 10 \<le> length (interactions (profile_of ten_visits ''c1'') @ [visit 1])
   \<and> sentiment (fst (updateCustomerProfile no_tools ten_visits ''c1'' (visit 1))) = Num (11 / 20)
   \<and> calculateSentiment (replicate 10 (visit 1)) = Num (11 / 20)"
proof -
  let ?p = "fst (updateCustomerProfile no_tools ten_visits ''c1'' (visit 1))"
  let ?sm = "snd (updateCustomerProfile no_tools ten_visits ''c1'' (visit 1))"
  have run: "updateCustomerProfile no_tools ten_visits ''c1'' (visit 1) = (?p, ?sm)"
    by simp
  have h: "interactions (profile_of ten_visits ''c1'') @ [visit 1]
             = visit (- 1) # replicate 10 (visit 1)"
    by (simp add: profile_of_def ten_visits_def new_SharedMemory_def new_profile_def
        eval_nat_numeral replicate_append_same)
  have l: "10 \<le> length (interactions (profile_of ten_visits ''c1'') @ [visit 1])"
    by (simp add: h)
  have sl: "slice_last10 (visit (- 1) # replicate 10 (visit 1)) = replicate 10 (visit 1)"
    by (simp add: slice_last10_def)
  have v: "calculateSentiment (replicate 10 (visit 1)) = Num (11 / 20)"
    by (simp add: calculateSentiment_def slice_last10_def sentiment_or_0_def visit_def
        js_div_len_def eval_nat_numeral Let_def)
  from updateCustomerProfile_sentiment [OF run, unfolded Let_def] l
  have "sentiment ?p
          = calculateSentiment (slice_last10 (interactions (profile_of ten_visits ''c1'') @ [visit 1]))"
    by blast
  then have "sentiment ?p = Num (11 / 20)"
    by (simp only: h sl v)
  with run h l v show ?thesis by blast
qed

text \<open>
  C5 as stated fails: a customer with two interactions of sentiment 1 is stored with
  sentiment 3/4, and the recency-weighted mean of the values 1 and 1 is 1.
\<close>

theorem sentiment_weighted_mean_counterexample:
  "sentiment (fst (updateCustomerProfile no_tools
      (snd (updateCustomerProfile no_tools new_SharedMemory ''c1'' (visit 1))) ''c1'' (visit 1)))
     = Num (3 / 4)
   \<and> recency_weighted_mean [1, 1] = 1"
  by (simp add: updateCustomerProfile_def profile_of_def new_SharedMemory_def new_profile_def
        calculateSentiment_def sentiment_or_0_def slice_last10_def js_div_len_def
        extractPreferences_def Let_def recency_weighted_mean_def weighted_mean_def
        recency_weights_def upt_rec no_tools_def visit_def)

subsection \<open>The coordinator\<close>

lemma recipients_set:
  "set (recipients ags src) = {a. (a, OPEN) \<in> set ags} - {src}"
  by (force simp: recipients_def)

lemma newly_sent_broadcast:
  "newly_sent st (broadcastLearning later st src l)
     = map (\<lambda>a. (a, learning_message later src l)) (recipients (agents st) src)"
  by (simp add: newly_sent_def broadcastLearning_def)

lemma dispatch_agents:
  "dispatch H now st a data = Inr st1 \<Longrightarrow> agents st1 = agents st \<and> sent st1 = sent st"
  by (auto simp: dispatch_def learnFromCustomerInteraction_def learnCrisisManagement_def
      recordSuccessPattern_def updateEmotionalIntelligence_def enhanceCollaborationPatterns_def
      Let_def split: if_splits option.splits)

text \<open>
  C8. The agents that \<open>broadcastLearning\<close> sends to are the agents of the map whose
  socket is open (the agents connected at the moment), without the source agent; each
  receives the learning message of the source. When \<open>processAgentCommunication\<close>
  returns, the messages it has sent are this broadcast: the recipients are the connected
  agents minus the agent the report came from.
\<close>

theorem broadcastLearning_recipients:
  "fst ` set (newly_sent st (broadcastLearning later st sourceAgent l))
     = connected st - {sourceAgent}
   \<and> (\<forall>(a, m) \<in> set (newly_sent st (broadcastLearning later st sourceAgent l)).
         m = learning_message later sourceAgent l)
   \<and> (processAgentCommunication H now later st sourceAgent data = Inr st' \<longrightarrow>
        fst ` set (newly_sent st st') = connected st - {sourceAgent})"
proof -
  have a: "fst ` set (newly_sent st (broadcastLearning later st sourceAgent l))
             = connected st - {sourceAgent}"
    for st :: "'a coordinator" and l
    by (simp add: newly_sent_broadcast image_image recipients_set connected_def)
  have b: "fst ` set (newly_sent st st') = connected st - {sourceAgent}"
    if "processAgentCommunication H now later st sourceAgent data = Inr st'"
  proof -
    from that obtain st1 where d: "dispatch H now st sourceAgent data = Inr st1"
      and st': "st' = broadcastLearning later st1 sourceAgent (m_learning data)"
      by (auto simp: processAgentCommunication_def split: sum.splits)
    from dispatch_agents [OF d]
    have "newly_sent st st' = newly_sent st1 st'" "connected st1 = connected st"
      by (simp_all add: newly_sent_def connected_def)
    with a [of st1 "m_learning data"] st' show ?thesis by simp
  qed
  show ?thesis using a b by (auto simp: newly_sent_broadcast)
qed

theorem broadcastLearning_recipients_witness:
  "processAgentCommunication spec_helpers 1 2 two_agents ''marcus''
      (empty_message\<lparr>m_type := Some ''PING'', m_learning := Some ''tip''\<rparr>)
     = Inr (broadcastLearning 2 two_agents ''marcus'' (Some ''tip''))
   \<and> newly_sent two_agents (broadcastLearning 2 two_agents ''marcus'' (Some ''tip''))
       = [(''sophia'', learning_message 2 ''marcus'' (Some ''tip''))]
   \<and> connected two_agents - {''marcus''} = {''sophia''}"
proof -
  have run: "processAgentCommunication spec_helpers 1 2 two_agents ''marcus''
      (empty_message\<lparr>m_type := Some ''PING'', m_learning := Some ''tip''\<rparr>)
     = Inr (broadcastLearning 2 two_agents ''marcus'' (Some ''tip''))"
    by (simp add: processAgentCommunication_def dispatch_def empty_message_def)
  have ags: "agents two_agents = [(''marcus'', OPEN), (''sophia'', OPEN), (''chen'', CLOSED)]"
    by (simp add: two_agents_def on_connection_def new_CollectiveIntelligence_def new_spec_state_def Let_def)
  have new: "newly_sent two_agents (broadcastLearning 2 two_agents ''marcus'' (Some ''tip''))
       = [(''sophia'', learning_message 2 ''marcus'' (Some ''tip''))]"
    by (simp add: newly_sent_def broadcastLearning_def recipients_def ags)
  from broadcastLearning_recipients
    [of two_agents 2 "''marcus''" "Some ''tip''" spec_helpers 1
      "empty_message\<lparr>m_type := Some ''PING'', m_learning := Some ''tip''\<rparr>"
      "broadcastLearning 2 two_agents ''marcus'' (Some ''tip'')"] run new
  have "connected two_agents - {''marcus''} = {''sophia''}" by simp
  with run new show ?thesis by simp
qed

lemma learnCrisisManagement_lookup:
  "\<exists>st'. learnCrisisManagement H st agentId (Some c) (Some out) = Inr st'
     \<and> agents st' = agents st
     \<and> (\<forall>k. map_of (crisisResponses st') k =
           (if k = crisisType c \<and> calculateEffectiveness H (crisis_of c out) > 7 / 10
            then Some (crisis_of c out) else map_of (crisisResponses st) k))"
  by (simp add: learnCrisisManagement_def Let_def update_conv')

lemma learn_crises_snoc:
  "learn_crises H st agentId (rs @ [(c, out)]) =
     (case learn_crises H st agentId rs of
        Inl e \<Rightarrow> Inl e
      | Inr st1 \<Rightarrow> learnCrisisManagement H st1 agentId (Some c) (Some out))"
proof (induction rs arbitrary: st)
  case Nil
  show ?case by (simp split: sum.splits)
next
  case (Cons r rs)
  obtain c' out' where r: "r = (c', out')" by (cases r)
  show ?case
    by (simp add: r Cons.IH split: sum.splits)
qed

lemma learn_crises_lookup:
  "\<exists>st'. learn_crises H st agentId rs = Inr st'
     \<and> (\<forall>k. map_of (crisisResponses st') k =
           (if filter (\<lambda>cr. c_type cr = k) (qualifying H rs) = []
            then map_of (crisisResponses st) k
            else Some (last (filter (\<lambda>cr. c_type cr = k) (qualifying H rs)))))"
proof (induction rs rule: rev_induct)
  case Nil
  show ?case by (simp add: qualifying_def)
next
  case (snoc r rs)
  obtain c out where r: "r = (c, out)" by (cases r)
  from snoc.IH obtain st1 where run: "learn_crises H st agentId rs = Inr st1"
    and look: "\<And>k. map_of (crisisResponses st1) k =
           (if filter (\<lambda>cr. c_type cr = k) (qualifying H rs) = []
            then map_of (crisisResponses st) k
            else Some (last (filter (\<lambda>cr. c_type cr = k) (qualifying H rs))))"
    by blast
  from learnCrisisManagement_lookup [of H st1 agentId c out]
  obtain st' where step: "learnCrisisManagement H st1 agentId (Some c) (Some out) = Inr st'"
    and look': "\<And>k. map_of (crisisResponses st') k =
           (if k = crisisType c \<and> calculateEffectiveness H (crisis_of c out) > 7 / 10
            then Some (crisis_of c out) else map_of (crisisResponses st1) k)"
    by blast
  have t: "c_type (crisis_of c out) = crisisType c" by (simp add: crisis_of_def)
  have "map_of (crisisResponses st') k =
           (if filter (\<lambda>cr. c_type cr = k) (qualifying H (rs @ [r])) = []
            then map_of (crisisResponses st) k
            else Some (last (filter (\<lambda>cr. c_type cr = k) (qualifying H (rs @ [r])))))" for k
    by (simp add: look' look r qualifying_def t)
  with run step show ?case
    by (simp add: r learn_crises_snoc)
qed

lemma updateCrisisPlaybook_spec_lookup:
  "map_of (updateCrisisPlaybook_spec eff pb t cr) k =
     (if k = t \<and> (case map_of pb t of None \<Rightarrow> True | Some stored \<Rightarrow> eff cr > eff stored)
      then Some cr else map_of pb k)"
  by (auto simp: updateCrisisPlaybook_spec_def update_conv' split: option.splits)

lemma learnCrisisManagement_playbook:
  "\<exists>st'. learnCrisisManagement (spec_helpers_for eff) st agentId (Some c) (Some out) = Inr st'
     \<and> playbook (ext st') =
         (if eff (crisis_of c out) > 7 / 10
          then updateCrisisPlaybook_spec eff (playbook (ext st)) (crisisType c) (crisis_of c out)
          else playbook (ext st))
     \<and> crisisResponses st' =
         (if eff (crisis_of c out) > 7 / 10
          then AList.update (crisisType c) (crisis_of c out) (crisisResponses st)
          else crisisResponses st)"
  by (simp add: learnCrisisManagement_def spec_helpers_for_def Let_def)

lemma learn_crises_playbook:
  assumes "playbook (ext st) = []"
  shows "\<exists>st'. learn_crises (spec_helpers_for eff) st agentId rs = Inr st'
     \<and> (\<forall>k. (qualifying_of_type eff k rs = [] \<longrightarrow> map_of (playbook (ext st')) k = None)
            \<and> (qualifying_of_type eff k rs \<noteq> [] \<longrightarrow>
                 (\<exists>stored. map_of (playbook (ext st')) k = Some stored
                    \<and> stored \<in> set (qualifying_of_type eff k rs)
                    \<and> (\<forall>cr \<in> set (qualifying_of_type eff k rs). eff cr \<le> eff stored))))"
proof (induction rs rule: rev_induct)
  case Nil
  show ?case using assms by (simp add: qualifying_of_type_def reports_of_type_def)
next
  case (snoc r rs)
  obtain c out where r: "r = (c, out)" by (cases r)
  let ?cr = "crisis_of c out"
  from snoc.IH obtain st1 where run: "learn_crises (spec_helpers_for eff) st agentId rs = Inr st1"
    and inv: "\<And>k. (qualifying_of_type eff k rs = [] \<longrightarrow> map_of (playbook (ext st1)) k = None)
            \<and> (qualifying_of_type eff k rs \<noteq> [] \<longrightarrow>
                 (\<exists>stored. map_of (playbook (ext st1)) k = Some stored
                    \<and> stored \<in> set (qualifying_of_type eff k rs)
                    \<and> (\<forall>cr \<in> set (qualifying_of_type eff k rs). eff cr \<le> eff stored)))"
    by blast
  from learnCrisisManagement_playbook [of eff st1 agentId c out]
  obtain st' where step: "learnCrisisManagement (spec_helpers_for eff) st1 agentId (Some c) (Some out) = Inr st'"
    and pb: "playbook (ext st') =
         (if eff ?cr > 7 / 10
          then updateCrisisPlaybook_spec eff (playbook (ext st1)) (crisisType c) ?cr
          else playbook (ext st1))"
    by blast
  have t: "c_type ?cr = crisisType c" by (simp add: crisis_of_def)
  have q: "qualifying_of_type eff k (rs @ [r]) =
      (if k = crisisType c \<and> eff ?cr > 7 / 10
       then qualifying_of_type eff k rs @ [?cr] else qualifying_of_type eff k rs)" for k
    by (auto simp: qualifying_of_type_def reports_of_type_def r t)
  have "(qualifying_of_type eff k (rs @ [r]) = [] \<longrightarrow> map_of (playbook (ext st')) k = None)
            \<and> (qualifying_of_type eff k (rs @ [r]) \<noteq> [] \<longrightarrow>
                 (\<exists>stored. map_of (playbook (ext st')) k = Some stored
                    \<and> stored \<in> set (qualifying_of_type eff k (rs @ [r]))
                    \<and> (\<forall>cr \<in> set (qualifying_of_type eff k (rs @ [r])). eff cr \<le> eff stored)))"
    for k
  proof (cases "k = crisisType c \<and> eff ?cr > 7 / 10")
    case False
    then have same: "map_of (playbook (ext st')) k = map_of (playbook (ext st1)) k"
      by (auto simp: pb updateCrisisPlaybook_spec_lookup)
    from False have qk: "qualifying_of_type eff k (rs @ [r]) = qualifying_of_type eff k rs"
      by (auto simp: q)
    from inv [of k] show ?thesis unfolding qk same .
  next
    case True
    show ?thesis
    proof (cases "qualifying_of_type eff k rs = []")
      case empty: True
      with inv [of k] have "map_of (playbook (ext st1)) k = None" by simp
      with True empty show ?thesis
        by (simp add: q pb updateCrisisPlaybook_spec_lookup)
    next
      case nonempty: False
      with inv [of k] obtain stored where s: "map_of (playbook (ext st1)) k = Some stored"
        and m: "stored \<in> set (qualifying_of_type eff k rs)"
        and b: "\<forall>cr \<in> set (qualifying_of_type eff k rs). eff cr \<le> eff stored"
        by blast
      show ?thesis
      proof (cases "eff ?cr > eff stored")
        case better: True
        with True s b show ?thesis
          by (auto simp: q pb updateCrisisPlaybook_spec_lookup)
      next
        case worse: False
        with True s m b show ?thesis
          by (auto simp: q pb updateCrisisPlaybook_spec_lookup)
      qed
    qed
  qed
  with run step show ?case
    by (simp add: r learn_crises_snoc)
qed

lemma recordSuccessPattern_step:
  "recordSuccessPattern H now st agentId (Some c) outc =
     Inr (let pattern = success_pattern_of now agentId c outc;
              similarity = fst (findSimilarPatterns H (ext st) pattern);
              x1 = snd (findSimilarPatterns H (ext st) pattern)
          in if 4 \<le> length similarity
             then st\<lparr>successPatterns :=
                       AList.update (action c)
                         (success_pattern.extend pattern
                            \<lparr>confidence = js_div_nat (length similarity) (length (agents st)),
                             variations = similarity\<rparr>)
                         (successPatterns st),
                     ext := createSOP H x1 pattern\<rparr>
             else st\<lparr>ext := x1\<rparr>)"
proof -
  have "sp_action (success_pattern_of now agentId c outc) = action c"
    by (simp add: success_pattern_of_def)
  moreover have "(3 < n) = (4 \<le> n)" for n :: nat by auto
  ultimately show ?thesis
    by (simp add: recordSuccessPattern_def Let_def)
qed

lemma record_all_snoc:
  "record_all H st (rs @ [(now, agentId, c, outc)]) =
     (case record_all H st rs of
        Inl e \<Rightarrow> Inl e
      | Inr st1 \<Rightarrow> recordSuccessPattern H now st1 agentId (Some c) outc)"
proof (induction rs arbitrary: st)
  case Nil
  show ?case by (simp split: sum.splits)
next
  case (Cons r rs)
  obtain n a c' o' where r: "r = (n, a, c', o')" by (cases r)
  show ?case
    by (simp add: r Cons.IH split: sum.splits)
qed

lemma record_all_spec:
  assumes "seen (ext st) = []" and "successPatterns st = []"
  shows "\<exists>st'. record_all spec_helpers st rs = Inr st'
     \<and> agents st' = agents st \<and> seen (ext st') = patterns_of rs
     \<and> (\<forall>a. map_of (successPatterns st') a =
           (if 4 \<le> length (similar_reports a rs)
            then Some (promoted (similar_reports a rs) (length (agents st)))
            else None))"
proof (induction rs rule: rev_induct)
  case Nil
  show ?case using assms by (simp add: patterns_of_def similar_reports_def)
next
  case (snoc r rs)
  obtain now agentId c outc where r: "r = (now, agentId, c, outc)" by (cases r)
  let ?p = "success_pattern_of now agentId c outc"
  from snoc.IH obtain st1 where run: "record_all spec_helpers st rs = Inr st1"
    and ag: "agents st1 = agents st" and log: "seen (ext st1) = patterns_of rs"
    and look: "\<And>a. map_of (successPatterns st1) a =
           (if 4 \<le> length (similar_reports a rs)
            then Some (promoted (similar_reports a rs) (length (agents st)))
            else None)"
    by blast
  have act: "sp_action ?p = action c" by (simp add: success_pattern_of_def)
  have pats: "patterns_of (rs @ [r]) = patterns_of rs @ [?p]"
    by (simp add: patterns_of_def r)
  have sim: "similar_reports a (rs @ [r]) =
      (if a = action c then similar_reports a rs @ [?p] else similar_reports a rs)" for a
    by (auto simp: similar_reports_def pats act)
  have found: "findSimilarPatterns spec_helpers (ext st1) ?p
      = (similar_reports (action c) (rs @ [r]), (ext st1)\<lparr>seen := patterns_of (rs @ [r])\<rparr>)"
    by (simp add: spec_helpers_def spec_helpers_for_def findSimilarPatterns_spec_def log similar_reports_def pats act)
  define st' where "st' =
     (if 4 \<le> length (similar_reports (action c) (rs @ [r]))
      then st1\<lparr>successPatterns :=
                 AList.update (action c)
                   (success_pattern.extend ?p
                      \<lparr>confidence = js_div_nat (length (similar_reports (action c) (rs @ [r])))
                                       (length (agents st1)),
                       variations = similar_reports (action c) (rs @ [r])\<rparr>)
                   (successPatterns st1),
               ext := (ext st1)\<lparr>seen := patterns_of (rs @ [r])\<rparr>\<rparr>
      else st1\<lparr>ext := (ext st1)\<lparr>seen := patterns_of (rs @ [r])\<rparr>\<rparr>)"
  have step: "recordSuccessPattern spec_helpers now st1 agentId (Some c) outc = Inr st'"
    unfolding recordSuccessPattern_step st'_def
    by (simp add: found Let_def) (simp add: spec_helpers_def spec_helpers_for_def)
  have "map_of (successPatterns st') a =
           (if 4 \<le> length (similar_reports a (rs @ [r]))
            then Some (promoted (similar_reports a (rs @ [r])) (length (agents st)))
            else None)" for a
  proof (cases "a = action c")
    case True
    then show ?thesis
      by (simp add: st'_def update_conv' look sim promoted_def ag)
  next
    case False
    then show ?thesis
      by (simp add: st'_def update_conv' look sim)
  qed
  moreover have "agents st' = agents st" "seen (ext st') = patterns_of (rs @ [r])"
    by (simp_all add: st'_def ag)
  ultimately show ?case
    using run step by (simp add: r record_all_snoc)
qed

text \<open>
  C1 (as amended). \<open>recordSuccessPattern\<close> stores a record for the action of a report
  if and only if the similar reports that \<open>findSimilarPatterns\<close> returns are at least 4;
  the confidence of the record is that count divided by the number of agents of the map,
  as JavaScript divides: it is not clamped, and exceeds 1 when there are more similar
  reports than agents. With similar reports as the spec has them (the reports received
  with the same action), after every sequence of reports to a new coordinator an action
  has a record if and only if at least 4 reports had it, with confidence their number
  divided by the number of agents.
\<close>

theorem success_pattern_promotion:
  "(\<exists>st'. recordSuccessPattern H now st agentId (Some c) outc = Inr st'
      \<and> map_of (successPatterns st') (action c) =
          (let pattern = success_pattern_of now agentId c outc;
               similarity = fst (findSimilarPatterns H (ext st) pattern)
           in if 4 \<le> length similarity
              then Some (success_pattern.extend pattern
                     \<lparr>confidence = js_div_nat (length similarity) (length (agents st)),
                      variations = similarity\<rparr>)
              else map_of (successPatterns st) (action c))
      \<and> (length (fst (findSimilarPatterns H (ext st) (success_pattern_of now agentId c outc))) < 4
           \<longrightarrow> successPatterns st' = successPatterns st))
   \<and> (seen (ext st0) = [] \<and> successPatterns st0 = [] \<longrightarrow>
        (\<exists>st'. record_all spec_helpers st0 rs = Inr st'
           \<and> (\<forall>a. map_of (successPatterns st') a =
                 (if 4 \<le> length (similar_reports a rs)
                  then Some (promoted (similar_reports a rs) (length (agents st0)))
                  else None))))
   \<and> (0 < m \<longrightarrow> js_div_nat n m = Num (of_nat n / of_nat m))"
proof -
  have "\<exists>st'. recordSuccessPattern H now st agentId (Some c) outc = Inr st'
      \<and> map_of (successPatterns st') (action c) =
          (let pattern = success_pattern_of now agentId c outc;
               similarity = fst (findSimilarPatterns H (ext st) pattern)
           in if 4 \<le> length similarity
              then Some (success_pattern.extend pattern
                     \<lparr>confidence = js_div_nat (length similarity) (length (agents st)),
                      variations = similarity\<rparr>)
              else map_of (successPatterns st) (action c))
      \<and> (length (fst (findSimilarPatterns H (ext st) (success_pattern_of now agentId c outc))) < 4
           \<longrightarrow> successPatterns st' = successPatterns st)"
    unfolding recordSuccessPattern_step by (simp add: Let_def update_conv')
  moreover have "\<exists>st'. record_all spec_helpers st0 rs = Inr st'
           \<and> (\<forall>a. map_of (successPatterns st') a =
                 (if 4 \<le> length (similar_reports a rs)
                  then Some (promoted (similar_reports a rs) (length (agents st0)))
                  else None))"
    if "seen (ext st0) = []" "successPatterns st0 = []"
    using record_all_spec [OF that, of rs] by blast
  moreover have "0 < m \<longrightarrow> js_div_nat n m = Num (of_nat n / of_nat m)"
    by (simp add: js_div_nat_def)
  ultimately show ?thesis by blast
qed

theorem success_pattern_promotion_witness:
  "seen (ext lone_agent) = [] \<and> successPatterns lone_agent = [] \<and> (0::nat) < 2
   \<and> (\<exists>st'. record_all spec_helpers lone_agent
               [(11, ''marcus'', dessert, None), (12, ''marcus'', dessert, None),
                (13, ''marcus'', dessert, None), (14, ''marcus'', dessert, None)] = Inr st'
        \<and> map_option confidence (map_of (successPatterns st') (Some ''offer_dessert''))
            = Some (Num 4))
   \<and> js_div_nat 4 2 = Num 2
   \<and> (\<exists>st'. recordSuccessPattern spec_helpers 11 lone_agent ''marcus'' (Some dessert) None
               = Inr st'
        \<and> successPatterns st' = successPatterns lone_agent)"
proof -
  have one: "length (fst (findSimilarPatterns spec_helpers (ext lone_agent)
               (success_pattern_of 11 ''marcus'' dessert None))) < 4"
    by (simp add: spec_helpers_def spec_helpers_for_def findSimilarPatterns_spec_def lone_agent_def on_connection_def
        new_CollectiveIntelligence_def new_spec_state_def Let_def)
  from success_pattern_promotion
      [of spec_helpers 11 lone_agent "''marcus''" dessert None lone_agent "[]" 2 4] one
  have first: "\<exists>st'. recordSuccessPattern spec_helpers 11 lone_agent ''marcus'' (Some dessert) None
               = Inr st'
        \<and> successPatterns st' = successPatterns lone_agent"
    by blast
  have e: "seen (ext lone_agent) = []" and s: "successPatterns lone_agent = []"
    and a: "length (agents lone_agent) = 1"
    by (simp_all add: lone_agent_def on_connection_def new_CollectiveIntelligence_def new_spec_state_def
        spec_helpers_def spec_helpers_for_def Let_def)
  have sim: "length (similar_reports (Some ''offer_dessert'')
               [(11, ''marcus'', dessert, None), (12, ''marcus'', dessert, None),
                (13, ''marcus'', dessert, None), (14, ''marcus'', dessert, None)]) = 4"
    by (simp add: similar_reports_def patterns_of_def success_pattern_of_def dessert_def
        empty_context_def)
  let ?rs = "[(11, ''marcus'', dessert, None), (12, ''marcus'', dessert, None),
              (13, ''marcus'', dessert, None), (14, ''marcus'', dessert, None)]"
  from success_pattern_promotion
      [of spec_helpers 0 lone_agent "''marcus''" dessert None lone_agent ?rs 2 4] e s
  obtain st' where run: "record_all spec_helpers lone_agent ?rs = Inr st'"
    and look: "\<And>a. map_of (successPatterns st') a =
                 (if 4 \<le> length (similar_reports a ?rs)
                  then Some (promoted (similar_reports a ?rs) (length (agents lone_agent)))
                  else None)"
    and q: "js_div_nat 4 2 = Num (of_nat 4 / of_nat 2)"
    by auto
  have "map_option confidence (map_of (successPatterns st') (Some ''offer_dessert''))
          = Some (Num 4)"
    unfolding look by (simp add: sim a promoted_def success_pattern.defs js_div_nat_def)
  with run e s q first show ?thesis by simp
qed

text \<open>
  C1 as stated fails: with one agent connected, four reports of the same action store
  the confidence 4, where the clamped quotient is 1.
\<close>

theorem confidence_clamp_counterexample:
  "(case record_all spec_helpers lone_agent
           [(11, ''marcus'', dessert, None), (12, ''marcus'', dessert, None),
            (13, ''marcus'', dessert, None), (14, ''marcus'', dessert, None)] of
      Inl e \<Rightarrow> None
    | Inr st' \<Rightarrow> map_option confidence (map_of (successPatterns st') (Some ''offer_dessert'')))
     = Some (Num 4)
   \<and> clamped_confidence 4 (length (agents lone_agent)) = 1"
  by (simp add: lone_agent_def on_connection_def new_CollectiveIntelligence_def new_spec_state_def
      spec_helpers_def spec_helpers_for_def Let_def recordSuccessPattern_def findSimilarPatterns_spec_def
      success_pattern_of_def dessert_def empty_context_def js_div_nat_def
      clamped_confidence_def success_pattern.defs)

text \<open>
  C2. \<open>updateCrisisPlaybook\<close> is called by \<open>learnCrisisManagement\<close> and defined nowhere
  in the repository; the playbook is taken as the spec describes it, for every
  effectiveness function. A report becomes or replaces the playbook entry of its
  \<open>crisisType\<close> exactly when its effectiveness exceeds 0.7 and, an entry being stored,
  strictly exceeds the effectiveness of that entry; no other entry changes. So after every
  sequence of reports into an empty playbook every entry is one of the submitted reports
  of its type, has effectiveness above 0.7, and has an effectiveness at least that of
  every submitted report of the type (resolved or not); and a type has an entry as soon as
  one of its reports exceeds 0.7. The map \<open>brain.crisisResponses\<close>, which the code writes
  itself, is another store: it holds the latest report above 0.7 (lemma
  \<open>learn_crises_lookup\<close>), as the second half of the example shows.
\<close>

theorem crisis_playbook_keeps_best:
  "(\<exists>st'. learnCrisisManagement (spec_helpers_for eff) st agentId (Some c) (Some out) = Inr st'
      \<and> (\<forall>k. map_of (playbook (ext st')) k =
            (if k = crisisType c \<and> eff (crisis_of c out) > 7 / 10
                \<and> (case map_of (playbook (ext st)) k of
                      None \<Rightarrow> True
                    | Some stored \<Rightarrow> eff (crisis_of c out) > eff stored)
             then Some (crisis_of c out)
             else map_of (playbook (ext st)) k)))
   \<and> (playbook (ext st0) = [] \<longrightarrow>
        (\<exists>st'. learn_crises (spec_helpers_for eff) st0 agentId rs = Inr st'
           \<and> (\<forall>k stored. map_of (playbook (ext st')) k = Some stored \<longrightarrow>
                 stored \<in> set (reports_of_type k rs) \<and> eff stored > 7 / 10
                 \<and> (\<forall>cr \<in> set (reports_of_type k rs). eff cr \<le> eff stored))
           \<and> (\<forall>k. qualifying_of_type eff k rs \<noteq> [] \<longrightarrow> map_of (playbook (ext st')) k \<noteq> None)))"
proof -
  have one: "\<exists>st'. learnCrisisManagement (spec_helpers_for eff) st agentId (Some c) (Some out) = Inr st'
      \<and> (\<forall>k. map_of (playbook (ext st')) k =
            (if k = crisisType c \<and> eff (crisis_of c out) > 7 / 10
                \<and> (case map_of (playbook (ext st)) k of
                      None \<Rightarrow> True
                    | Some stored \<Rightarrow> eff (crisis_of c out) > eff stored)
             then Some (crisis_of c out)
             else map_of (playbook (ext st)) k))"
  proof -
    from learnCrisisManagement_playbook [of eff st agentId c out]
    obtain st' where step: "learnCrisisManagement (spec_helpers_for eff) st agentId (Some c) (Some out) = Inr st'"
      and pb: "playbook (ext st') =
         (if eff (crisis_of c out) > 7 / 10
          then updateCrisisPlaybook_spec eff (playbook (ext st)) (crisisType c) (crisis_of c out)
          else playbook (ext st))"
      by blast
    have "map_of (playbook (ext st')) k =
            (if k = crisisType c \<and> eff (crisis_of c out) > 7 / 10
                \<and> (case map_of (playbook (ext st)) k of
                      None \<Rightarrow> True
                    | Some stored \<Rightarrow> eff (crisis_of c out) > eff stored)
             then Some (crisis_of c out)
             else map_of (playbook (ext st)) k)" for k
      by (auto simp: pb updateCrisisPlaybook_spec_lookup)
    with step show ?thesis by blast
  qed
  have many: "\<exists>st'. learn_crises (spec_helpers_for eff) st0 agentId rs = Inr st'
           \<and> (\<forall>k stored. map_of (playbook (ext st')) k = Some stored \<longrightarrow>
                 stored \<in> set (reports_of_type k rs) \<and> eff stored > 7 / 10
                 \<and> (\<forall>cr \<in> set (reports_of_type k rs). eff cr \<le> eff stored))
           \<and> (\<forall>k. qualifying_of_type eff k rs \<noteq> [] \<longrightarrow> map_of (playbook (ext st')) k \<noteq> None)"
    if e: "playbook (ext st0) = []"
  proof -
    from learn_crises_playbook [OF e, of eff agentId rs]
    obtain st' where run: "learn_crises (spec_helpers_for eff) st0 agentId rs = Inr st'"
      and inv: "\<And>k. (qualifying_of_type eff k rs = [] \<longrightarrow> map_of (playbook (ext st')) k = None)
            \<and> (qualifying_of_type eff k rs \<noteq> [] \<longrightarrow>
                 (\<exists>stored. map_of (playbook (ext st')) k = Some stored
                    \<and> stored \<in> set (qualifying_of_type eff k rs)
                    \<and> (\<forall>cr \<in> set (qualifying_of_type eff k rs). eff cr \<le> eff stored)))"
      by blast
    have a: "stored \<in> set (reports_of_type k rs) \<and> eff stored > 7 / 10
                 \<and> (\<forall>cr \<in> set (reports_of_type k rs). eff cr \<le> eff stored)"
      if s: "map_of (playbook (ext st')) k = Some stored" for k stored
    proof -
      from s inv [of k] have m: "stored \<in> set (qualifying_of_type eff k rs)"
        and b: "\<forall>cr \<in> set (qualifying_of_type eff k rs). eff cr \<le> eff stored"
        by (cases "qualifying_of_type eff k rs = []"; simp)+
      from m have g: "stored \<in> set (reports_of_type k rs)" "eff stored > 7 / 10"
        by (simp_all add: qualifying_of_type_def)
      have "eff cr \<le> eff stored" if "cr \<in> set (reports_of_type k rs)" for cr
      proof (cases "eff cr > 7 / 10")
        case True
        with that b show ?thesis by (simp add: qualifying_of_type_def)
      next
        case False
        with g show ?thesis by simp
      qed
      with g show ?thesis by blast
    qed
    have "map_of (playbook (ext st')) k \<noteq> None" if "qualifying_of_type eff k rs \<noteq> []" for k
      using that inv [of k] by auto
    with run a show ?thesis by blast
  qed
  from one many show ?thesis by blast
qed


theorem crisis_playbook_keeps_best_witness:
  "playbook (ext (new_CollectiveIntelligence new_spec_state)) = []
   \<and> (\<exists>st'. learn_crises spec_helpers (new_CollectiveIntelligence new_spec_state) ''marcus''
               [kitchen_fire (9/10), kitchen_fire (4/5)] = Inr st'
        \<and> map_of (playbook (ext st')) (Some ''kitchen_fire'')
            = Some (crisis_of (fst (kitchen_fire (9/10))) (snd (kitchen_fire (9/10))))
        \<and> map_of (crisisResponses st') (Some ''kitchen_fire'')
            = Some (crisis_of (fst (kitchen_fire (4/5))) (snd (kitchen_fire (4/5)))))
   \<and> calculateEffectiveness_spec
        (crisis_of (fst (kitchen_fire (9/10))) (snd (kitchen_fire (9/10)))) = 9/10
   \<and> calculateEffectiveness_spec
        (crisis_of (fst (kitchen_fire (4/5))) (snd (kitchen_fire (4/5)))) = 4/5"
proof -
  let ?st = "new_CollectiveIntelligence new_spec_state :: spec_state coordinator"
  let ?rs = "[kitchen_fire (9/10), kitchen_fire (4/5)]"
  let ?k = "Some ''kitchen_fire''"
  let ?c9 = "crisis_of (fst (kitchen_fire (9/10))) (snd (kitchen_fire (9/10)))"
  let ?c8 = "crisis_of (fst (kitchen_fire (4/5))) (snd (kitchen_fire (4/5)))"
  have e: "playbook (ext ?st) = []"
    by (simp add: new_CollectiveIntelligence_def new_spec_state_def)
  have e9: "calculateEffectiveness_spec ?c9 = 9/10"
    by (simp add: kitchen_fire_def crisis_of_def calculateEffectiveness_spec_def
        empty_context_def empty_outcome_def)
  have e8: "calculateEffectiveness_spec ?c8 = 4/5"
    by (simp add: kitchen_fire_def crisis_of_def calculateEffectiveness_spec_def
        empty_context_def empty_outcome_def)
  have rep: "reports_of_type ?k ?rs = [?c9, ?c8]"
    by (simp add: reports_of_type_def kitchen_fire_def crisis_of_def empty_context_def)
  have q: "qualifying_of_type calculateEffectiveness_spec ?k ?rs \<noteq> []"
    by (simp add: qualifying_of_type_def rep e9)
  from crisis_playbook_keeps_best
    [of calculateEffectiveness_spec ?st "''marcus''" "fst (kitchen_fire (9/10))"
      "snd (kitchen_fire (9/10))" ?st ?rs] e
  obtain st' where run: "learn_crises (spec_helpers_for calculateEffectiveness_spec) ?st ''marcus'' ?rs = Inr st'"
    and best: "\<And>k stored. map_of (playbook (ext st')) k = Some stored \<Longrightarrow>
                 stored \<in> set (reports_of_type k ?rs)
                 \<and> (\<forall>cr \<in> set (reports_of_type k ?rs).
                       calculateEffectiveness_spec cr \<le> calculateEffectiveness_spec stored)"
    and some: "\<And>k. qualifying_of_type calculateEffectiveness_spec k ?rs \<noteq> []
                 \<Longrightarrow> map_of (playbook (ext st')) k \<noteq> None"
    by blast
  from some [OF q] obtain stored where s: "map_of (playbook (ext st')) ?k = Some stored"
    by blast
  from best [OF s] have "stored = ?c9 \<or> stored = ?c8"
    and "calculateEffectiveness_spec ?c9 \<le> calculateEffectiveness_spec stored"
    by (simp_all add: rep)
  then have "stored = ?c9" using e9 e8 by auto
  with s have pb: "map_of (playbook (ext st')) ?k = Some ?c9" by simp
  from learn_crises_lookup [of "spec_helpers_for calculateEffectiveness_spec" ?st "''marcus''" ?rs] run
  have "map_of (crisisResponses st') ?k =
           (if filter (\<lambda>cr. c_type cr = ?k) (qualifying (spec_helpers_for calculateEffectiveness_spec) ?rs) = []
            then map_of (crisisResponses ?st) ?k
            else Some (last (filter (\<lambda>cr. c_type cr = ?k)
                    (qualifying (spec_helpers_for calculateEffectiveness_spec) ?rs))))"
    by auto
  moreover have "filter (\<lambda>cr. c_type cr = ?k) (qualifying (spec_helpers_for calculateEffectiveness_spec) ?rs)
       = [?c9, ?c8]"
    by (simp add: qualifying_def spec_helpers_for_def kitchen_fire_def crisis_of_def
        calculateEffectiveness_spec_def empty_context_def empty_outcome_def)
  ultimately have cr: "map_of (crisisResponses st') ?k = Some ?c8" by simp
  from e run pb cr e9 e8 show ?thesis unfolding spec_helpers_def by blast
qed

lemma broadcast_same_stores: "same_stores st (broadcastLearning later st agentId l)"
  by (simp add: same_stores_def broadcastLearning_def)

text \<open>
  C4 (as amended). The message listener validates nothing, logs nothing and catches
  nothing. A message that \<open>JSON.parse\<close> rejects raises \<open>SyntaxError\<close> out of the
  listener, the message \<open>null\<close> raises \<open>TypeError\<close>. A report without the \<open>context\<close>,
  \<open>outcome\<close> or \<open>emotion\<close> object that the handler of its kind reads raises
  \<open>TypeError\<close> out of \<open>processAgentCommunication\<close>, the coordinator being as
  before the message (nothing is stored, nothing is broadcast). A message whose type is none of the five kinds is handled by no handler:
  the stores stay as they are and the message is broadcast. A report that has the objects
  and lacks their fields is processed as any other: a customer interaction without
  \<open>situation\<close> is stored under the key \<open>undefined\<close>.
\<close>

theorem reports_are_not_screened:
  "(parse raw = ParseFailure \<longrightarrow> on_message H parse now later st agentId raw = Inl (SyntaxError, st))
   \<and> (parse raw = ParsedNull \<longrightarrow> on_message H parse now later st agentId raw = Inl (TypeError, st))
   \<and> (parse raw = ParsedObject data \<longrightarrow>
        on_message H parse now later st agentId raw
          = processAgentCommunication H now later st agentId data)
   \<and> (m_context data = None
        \<and> m_type data \<in> {Some ''CUSTOMER_INTERACTION'', Some ''CRISIS_HANDLED'',
                           Some ''SUCCESS_PATTERN''}
        \<longrightarrow> processAgentCommunication H now later st agentId data = Inl (TypeError, st))
   \<and> (m_outcome data = None
        \<and> m_type data \<in> {Some ''CUSTOMER_INTERACTION'', Some ''CRISIS_HANDLED'',
                           Some ''EMOTIONAL_READ''}
        \<longrightarrow> processAgentCommunication H now later st agentId data = Inl (TypeError, st))
   \<and> (m_emotion data = None \<and> m_type data = Some ''EMOTIONAL_READ''
        \<longrightarrow> processAgentCommunication H now later st agentId data = Inl (TypeError, st))
   \<and> (m_type data \<notin> Some ` set report_kinds
        \<longrightarrow> processAgentCommunication H now later st agentId data
              = Inr (broadcastLearning later st agentId (m_learning data))
            \<and> same_stores st (broadcastLearning later st agentId (m_learning data)))
   \<and> (m_type data = Some ''CUSTOMER_INTERACTION'' \<and> m_context data = Some c
        \<and> m_outcome data = Some out \<and> situation c = None
        \<longrightarrow> (\<exists>st'. processAgentCommunication H now later st agentId data = Inr st'
               \<and> map_of (customerPatterns st') None =
                   Some ((case map_of (customerPatterns st) None of None \<Rightarrow> [] | Some ps \<Rightarrow> ps)
                         @ [\<lparr>p_situation = None, customerMood = mood c, p_approach = approach c,
                             p_result = satisfaction out, p_timestamp = now\<rparr>])))"
proof -
  have "on_message H parse now later st agentId raw = Inl (SyntaxError, st)" if "parse raw = ParseFailure"
    using that by (simp add: on_message_def)
  moreover have "on_message H parse now later st agentId raw = Inl (TypeError, st)"
    if "parse raw = ParsedNull"
    using that by (simp add: on_message_def)
  moreover have "on_message H parse now later st agentId raw
          = processAgentCommunication H now later st agentId data"
    if "parse raw = ParsedObject data"
    using that by (simp add: on_message_def)
  moreover have "processAgentCommunication H now later st agentId data = Inl (TypeError, st)"
    if "m_context data = None"
      "m_type data \<in> {Some ''CUSTOMER_INTERACTION'', Some ''CRISIS_HANDLED'',
                           Some ''SUCCESS_PATTERN''}"
    using that
    by (auto simp: processAgentCommunication_def dispatch_def learnFromCustomerInteraction_def
        learnCrisisManagement_def recordSuccessPattern_def)
  moreover have "processAgentCommunication H now later st agentId data = Inl (TypeError, st)"
    if "m_outcome data = None"
      "m_type data \<in> {Some ''CUSTOMER_INTERACTION'', Some ''CRISIS_HANDLED'',
                           Some ''EMOTIONAL_READ''}"
    using that
    by (auto simp: processAgentCommunication_def dispatch_def learnFromCustomerInteraction_def
        learnCrisisManagement_def updateEmotionalIntelligence_def split: option.splits)
  moreover have "processAgentCommunication H now later st agentId data = Inl (TypeError, st)"
    if "m_emotion data = None" "m_type data = Some ''EMOTIONAL_READ''"
    using that
    by (simp add: processAgentCommunication_def dispatch_def updateEmotionalIntelligence_def)
  moreover have "processAgentCommunication H now later st agentId data
              = Inr (broadcastLearning later st agentId (m_learning data))"
    if "m_type data \<notin> Some ` set report_kinds"
    using that
    by (auto simp: processAgentCommunication_def dispatch_def report_kinds_def)
  moreover have "\<exists>st'. processAgentCommunication H now later st agentId data = Inr st'
               \<and> map_of (customerPatterns st') None =
                   Some ((case map_of (customerPatterns st) None of None \<Rightarrow> [] | Some ps \<Rightarrow> ps)
                         @ [\<lparr>p_situation = None, customerMood = mood c, p_approach = approach c,
                             p_result = satisfaction out, p_timestamp = now\<rparr>])"
    if "m_type data = Some ''CUSTOMER_INTERACTION''" "m_context data = Some c"
       "m_outcome data = Some out" "situation c = None"
    using that
    by (auto simp: processAgentCommunication_def dispatch_def learnFromCustomerInteraction_def
        broadcastLearning_def Let_def update_conv' split: option.splits)
  ultimately show ?thesis
    using broadcast_same_stores by blast
qed

theorem reports_are_not_screened_witness:
  "on_message spec_helpers (\<lambda>raw. ParseFailure) 1 2 two_agents ''marcus'' ''{oops'' = Inl (SyntaxError, two_agents)
   \<and> m_context (empty_message\<lparr>m_type := Some ''CRISIS_HANDLED''\<rparr>) = None
   \<and> processAgentCommunication spec_helpers 1 2 two_agents ''marcus''
        (empty_message\<lparr>m_type := Some ''CRISIS_HANDLED''\<rparr>) = Inl (TypeError, two_agents)
   \<and> m_type (empty_message\<lparr>m_type := Some ''PING''\<rparr>) \<notin> Some ` set report_kinds
   \<and> processAgentCommunication spec_helpers 1 2 two_agents ''marcus''
        (empty_message\<lparr>m_type := Some ''PING''\<rparr>)
       = Inr (broadcastLearning 2 two_agents ''marcus'' None)
   \<and> same_stores two_agents (broadcastLearning 2 two_agents ''marcus'' None)
   \<and> processAgentCommunication spec_helpers 1 2 two_agents ''marcus''
        (empty_message\<lparr>m_type := Some ''EMOTIONAL_READ'', m_outcome := Some empty_outcome\<rparr>)
       = Inl (TypeError, two_agents)
   \<and> (\<exists>st'. processAgentCommunication spec_helpers 1 2 two_agents ''marcus''
               (empty_message\<lparr>m_type := Some ''CUSTOMER_INTERACTION'',
                               m_context := Some empty_context,
                               m_outcome := Some empty_outcome\<rparr>) = Inr st'
          \<and> map_of (customerPatterns st') None
              = Some [\<lparr>p_situation = None, customerMood = None, p_approach = None,
                        p_result = None, p_timestamp = 1\<rparr>])"
proof -
  have a: "on_message spec_helpers (\<lambda>raw. ParseFailure) 1 2 two_agents ''marcus'' ''{oops''
             = Inl (SyntaxError, two_agents)"
    using reports_are_not_screened
      [of "\<lambda>raw. ParseFailure" "''{oops''" spec_helpers 1 2 two_agents "''marcus''"]
    by simp
  have b: "m_context (empty_message\<lparr>m_type := Some ''CRISIS_HANDLED''\<rparr>) = None"
    by (simp add: empty_message_def)
  have c: "processAgentCommunication spec_helpers 1 2 two_agents ''marcus''
        (empty_message\<lparr>m_type := Some ''CRISIS_HANDLED''\<rparr>) = Inl (TypeError, two_agents)"
    using reports_are_not_screened
      [of "\<lambda>raw. ParseFailure" "''{oops''" spec_helpers 1 2 two_agents "''marcus''"
        "empty_message\<lparr>m_type := Some ''CRISIS_HANDLED''\<rparr>"] b
    by simp
  have d: "m_type (empty_message\<lparr>m_type := Some ''PING''\<rparr>) \<notin> Some ` set report_kinds"
    by (simp add: report_kinds_def)
  have e: "processAgentCommunication spec_helpers 1 2 two_agents ''marcus''
        (empty_message\<lparr>m_type := Some ''PING''\<rparr>)
       = Inr (broadcastLearning 2 two_agents ''marcus'' None)
     \<and> same_stores two_agents (broadcastLearning 2 two_agents ''marcus'' None)"
    using reports_are_not_screened
      [of "\<lambda>raw. ParseFailure" "''{oops''" spec_helpers 1 2 two_agents "''marcus''"
        "empty_message\<lparr>m_type := Some ''PING''\<rparr>"] d
    by (simp add: empty_message_def)
  have f: "processAgentCommunication spec_helpers 1 2 two_agents ''marcus''
        (empty_message\<lparr>m_type := Some ''EMOTIONAL_READ'', m_outcome := Some empty_outcome\<rparr>)
       = Inl (TypeError, two_agents)"
    using reports_are_not_screened
      [of "\<lambda>raw. ParseFailure" "''{oops''" spec_helpers 1 2 two_agents "''marcus''"
        "empty_message\<lparr>m_type := Some ''EMOTIONAL_READ'', m_outcome := Some empty_outcome\<rparr>"]
    by (simp add: empty_message_def)
  have cp: "customerPatterns two_agents = []"
    by (simp add: two_agents_def on_connection_def new_CollectiveIntelligence_def new_spec_state_def Let_def)
  have g: "\<exists>st'. processAgentCommunication spec_helpers 1 2 two_agents ''marcus''
               (empty_message\<lparr>m_type := Some ''CUSTOMER_INTERACTION'',
                               m_context := Some empty_context,
                               m_outcome := Some empty_outcome\<rparr>) = Inr st'
          \<and> map_of (customerPatterns st') None
              = Some [\<lparr>p_situation = None, customerMood = None, p_approach = None,
                        p_result = None, p_timestamp = 1\<rparr>]"
    using reports_are_not_screened
      [of "\<lambda>raw. ParseFailure" "''{oops''" spec_helpers 1 2 two_agents "''marcus''"
        "empty_message\<lparr>m_type := Some ''CUSTOMER_INTERACTION'',
                        m_context := Some empty_context, m_outcome := Some empty_outcome\<rparr>"
        empty_context empty_outcome]
    by (simp add: empty_message_def empty_context_def empty_outcome_def cp)
  from a b c d e f g show ?thesis by simp
qed

text \<open>
  C4 as stated fails: a customer-interaction report without \<open>context\<close> raises
  \<open>TypeError\<close> out of \<open>processAgentCommunication\<close>, and one whose context and outcome
  have no fields is not dropped but stored, under the key \<open>undefined\<close>.
\<close>

theorem malformed_report_counterexample:
  "processAgentCommunication spec_helpers 1 2 two_agents ''marcus''
      (empty_message\<lparr>m_type := Some ''CUSTOMER_INTERACTION''\<rparr>) = Inl (TypeError, two_agents)
   \<and> (case processAgentCommunication spec_helpers 1 2 two_agents ''marcus''
             (empty_message\<lparr>m_type := Some ''CUSTOMER_INTERACTION'',
                             m_context := Some empty_context,
                             m_outcome := Some empty_outcome\<rparr>) of
        Inl e \<Rightarrow> []
      | Inr st' \<Rightarrow> customerPatterns st')
       = [(None, [\<lparr>p_situation = None, customerMood = None, p_approach = None,
                   p_result = None, p_timestamp = 1\<rparr>])]
   \<and> customerPatterns two_agents = []"
  by (simp add: processAgentCommunication_def dispatch_def learnFromCustomerInteraction_def
      empty_message_def empty_context_def empty_outcome_def two_agents_def on_connection_def
      new_CollectiveIntelligence_def new_spec_state_def spec_helpers_def spec_helpers_for_def broadcastLearning_def Let_def)


subsection \<open>The predictive engine\<close>



lemma subseq_if_singleton:
  "(c \<longrightarrow> c') \<Longrightarrow> subseq (if c then [x] else []) (if c' then [x] else [])"
  by auto






lemma confidence_reduce_sum:
  "confidence_reduce cs i acc =
     acc + (\<Sum>(c, k) \<leftarrow> zip cs [i..<i + length cs]. c * weight_at k)"
proof (induction cs arbitrary: i acc)
  case Nil
  show ?case by simp
next
  case (Cons c cs)
  have "[i..<i + length (c # cs)] = i # [Suc i..<Suc i + length cs]"
    by (simp add: upt_rec)
  then show ?case
    by (simp add: Cons.IH add.assoc)
qed

lemma weight_at_nonneg: "0 \<le> weight_at k"
proof -
  have "\<forall>w \<in> set weights. 0 \<le> w" by (simp add: weights_def)
  then show ?thesis by (simp add: weight_at_def)
qed

lemma weighted_terms_bounds:
  assumes "\<forall>c \<in> set cs. 0 \<le> c \<and> c \<le> 1"
  shows "0 \<le> (\<Sum>(c, k) \<leftarrow> zip cs [i..<i + length cs]. c * weight_at k)
       \<and> (\<Sum>(c, k) \<leftarrow> zip cs [i..<i + length cs]. c * weight_at k)
           \<le> sum_list (map weight_at [i..<i + length cs])"
  using assms
proof (induction cs arbitrary: i)
  case Nil
  show ?case by simp
next
  case (Cons c cs)
  have u: "[i..<i + length (c # cs)] = i # [Suc i..<Suc i + length cs]"
    by (simp add: upt_rec)
  from Cons.prems have c: "0 \<le> c" "c \<le> 1" and rest: "\<forall>c \<in> set cs. 0 \<le> c \<and> c \<le> 1"
    by simp_all
  from c weight_at_nonneg [of i] have "0 \<le> c * weight_at i" "c * weight_at i \<le> weight_at i"
    by (simp_all add: mult_left_le_one_le)
  with Cons.IH [OF rest, of "Suc i"] show ?case
    unfolding u by simp
qed

lemma weights_prefix_sum: "n \<le> 5 \<Longrightarrow> sum_list (map weight_at [0..<n]) \<le> 1"
proof -
  assume "n \<le> 5"
  then consider "n = 0" | "n = 1" | "n = 2" | "n = 3" | "n = 4" | "n = 5" by linarith
  then show ?thesis
    by cases (simp_all add: weight_at_def weights_def upt_rec)
qed

lemma confidence_reduce_five:
  "length cs = 5 \<Longrightarrow> confidence_reduce cs 0 0 = weighted_mean weights cs"
proof -
  assume l: "length cs = 5"
  then obtain a b c d e where cs: "cs = [a, b, c, d, e]"
    by (auto simp: length_Suc_conv eval_nat_numeral)
  show ?thesis
    by (simp add: cs weighted_mean_def weights_def weight_at_def)
qed

text \<open>
  What \<open>calculateConfidence\<close> computes: it drops the sub-predictions whose confidence is
  absent (or 0) and sums the confidences that remain, each multiplied by the weight at
  its position among those that remain (0.3, 0.2, 0.2, 0.15, 0.15, and 0.1 from the sixth
  on). The result is 0 when none remains; it lies in \<open>[0, 1]\<close> when at most five remain
  and each lies in \<open>[0, 1]\<close>; it is the weighted mean of the confidences, as the comment
  of the source has it, when exactly five remain.
\<close>

lemma calculateConfidence_positional:
  "calculateConfidence_of readings =
     (\<Sum>(c, k) \<leftarrow> zip (present readings) [0..<length (present readings)]. c * weight_at k)
   \<and> (present readings = [] \<longrightarrow> calculateConfidence_of readings = 0)
   \<and> (length (present readings) \<le> 5 \<and> (\<forall>c \<in> set (present readings). 0 \<le> c \<and> c \<le> 1)
        \<longrightarrow> 0 \<le> calculateConfidence_of readings \<and> calculateConfidence_of readings \<le> 1)
   \<and> (length (present readings) = 5
        \<longrightarrow> calculateConfidence_of readings = weighted_mean weights (present readings))"
proof -
  have f: "calculateConfidence_of readings =
     (\<Sum>(c, k) \<leftarrow> zip (present readings) [0..<length (present readings)]. c * weight_at k)"
    by (simp add: calculateConfidence_of_def Let_def confidence_reduce_sum)
  have "0 \<le> calculateConfidence_of readings \<and> calculateConfidence_of readings \<le> 1"
    if n: "length (present readings) \<le> 5"
      and b: "\<forall>c \<in> set (present readings). 0 \<le> c \<and> c \<le> 1"
    using weighted_terms_bounds [OF b, of 0] weights_prefix_sum [OF n]
    unfolding f by simp
  moreover have "calculateConfidence_of readings = weighted_mean weights (present readings)"
    if "length (present readings) = 5"
    using that confidence_reduce_five [OF that]
    by (auto simp: calculateConfidence_of_def Let_def)
  moreover have "calculateConfidence_of readings = 0" if "present readings = []"
    using that by (simp add: calculateConfidence_of_def)
  ultimately show ?thesis using f by blast
qed

lemma calculateConfidence_positional_example:
  "present [Some (1/2), None, Some 0, Some 1] = [1/2, 1]
   \<and> calculateConfidence_of [Some (1/2), None, Some 0, Some 1] = 7 / 20
   \<and> 0 \<le> calculateConfidence_of [Some (1/2), None, Some 0, Some 1]
   \<and> calculateConfidence_of [Some (1/2), None, Some 0, Some 1] \<le> 1
   \<and> calculateConfidence_of [Some 1, Some 1, Some 1, Some 1, Some 1]
       = weighted_mean weights [1, 1, 1, 1, 1]
   \<and> present [None, Some 0] = [] \<and> calculateConfidence_of [None, Some 0] = 0"
proof -
  have z: "present [None, Some 0] = []"
    by (simp add: present_def)
  from calculateConfidence_positional [of "[None, Some 0]"] z
  have z0: "calculateConfidence_of [None, Some 0] = 0"
    by blast
  have p: "present [Some (1/2), None, Some 0, Some 1] = [1/2, 1]"
    by (simp add: present_def)
  have q: "present [Some 1, Some 1, Some 1, Some 1, Some 1] = [1, 1, 1, 1, 1]"
    by (simp add: present_def)
  have v: "calculateConfidence_of [Some (1/2), None, Some 0, Some 1] = 7 / 20"
    by (simp add: calculateConfidence_of_def p weight_at_def weights_def)
  from calculateConfidence_positional [of "[Some (1/2), None, Some 0, Some 1]"] p
  have "0 \<le> calculateConfidence_of [Some (1/2), None, Some 0, Some 1]
   \<and> calculateConfidence_of [Some (1/2), None, Some 0, Some 1] \<le> 1"
    by simp
  moreover from calculateConfidence_positional [of "[Some 1, Some 1, Some 1, Some 1, Some 1]"] q
  have "calculateConfidence_of [Some 1, Some 1, Some 1, Some 1, Some 1]
       = weighted_mean weights [1, 1, 1, 1, 1]"
    by simp
  ultimately show ?thesis using p v z z0 by simp
qed

text \<open>
  C6. The composite confidence is to be the weighted average over the sub-predictions
  that are present, with their weights renormalized. The code does not renormalize: for a
  bundle whose only sub-prediction with a confidence is a next order of confidence 0.9
  (the bundle of \<open>predictCustomerNeeds\<close> when the satisfaction has no confidence), it
  returns 0.27, where the weighted average over the sub-predictions present is 0.9.
\<close>

theorem calculateConfidence_not_renormalized:
  "calculateConfidence
      \<lparr>nextOrder = Some \<lparr>no_items = [''risotto''], no_confidence = 9 / 10, no_reasoning = None\<rparr>,
       arrivalTime = None, specialRequest = None, pr_satisfaction = None, churnRisk = None\<rparr>
     = 27 / 100
   \<and> renormalized_confidence (confidence_readings
      \<lparr>nextOrder = Some \<lparr>no_items = [''risotto''], no_confidence = 9 / 10, no_reasoning = None\<rparr>,
       arrivalTime = None, specialRequest = None, pr_satisfaction = None, churnRisk = None\<rparr>)
     = 9 / 10"
  by (simp add: calculateConfidence_def calculateConfidence_of_def confidence_readings_def
      present_def weight_at_def weights_def renormalized_confidence_def)


text \<open>
  \<open>forecastDemand\<close> has no check of its history: what \<open>tf.tensor2d\<close> or the model
  raises on the history leaves the method, and when they return, the confidence of each
  of the seven daily predictions is what \<open>calculateForecastConfidence\<close> gives for the
  history and the day.
\<close>

lemma forecastDemand_unguarded:
  "(tensor2d E (getHistoricalDemand E) = Inl e \<longrightarrow> forecastDemand E timeframe today = Inl e)
   \<and> (tensor2d E (getHistoricalDemand E) = Inr ts \<and> demandForecast_predict E ts = Inl e
        \<longrightarrow> forecastDemand E timeframe today = Inl e)
   \<and> (tensor2d E (getHistoricalDemand E) = Inr ts \<and> demandForecast_predict E ts = Inr fd
        \<longrightarrow> (\<exists>r. forecastDemand E timeframe today = Inr r
               \<and> map df_confidence (daily r)
                   = map (calculateForecastConfidence E (getHistoricalDemand E)) [0..<7]))"
  by (simp add: forecastDemand_def Let_def comp_def)

text \<open>
  C3 (as amended). \<open>predictNextOrder\<close> with a customer history of fewer than 3 entries
  returns the zero-confidence result \<open>{items: [], confidence: 0}\<close> instead of raising an
  error: the model is not consulted, whatever it would do. With 3 entries or more the
  result is the model's, and an error of the model leaves the method.
\<close>

theorem predictNextOrder_short_history:
  "(length (getCustomerHistory E customerId) < 3 \<longrightarrow>
      predictNextOrder E customerId = Inr \<lparr>no_items = [], no_confidence = 0, no_reasoning = None\<rparr>)
   \<and> (3 \<le> length (getCustomerHistory E customerId)
        \<and> customerBehavior_predict E
             (extractOrderPatterns E (getCustomerHistory E customerId) @ timeFactors E) = Inl e
        \<longrightarrow> predictNextOrder E customerId = Inl e)"
  by (simp add: predictNextOrder_def Let_def)

theorem predictNextOrder_short_history_witness:
  "length (getCustomerHistory (no_history_strict\<lparr>customerBehavior_predict := (\<lambda>x. Inl LibraryError)\<rparr>)
             ''guest'') < 3
   \<and> predictNextOrder (no_history_strict\<lparr>customerBehavior_predict := (\<lambda>x. Inl LibraryError)\<rparr>)
         ''guest''
       = Inr \<lparr>no_items = [], no_confidence = 0, no_reasoning = None\<rparr>
   \<and> 3 \<le> length (getCustomerHistory
         (no_history_strict\<lparr>getCustomerHistory := (\<lambda>c. [(), (), ()]),
                             customerBehavior_predict := (\<lambda>x. Inl LibraryError)\<rparr>) ''guest'')
   \<and> predictNextOrder
         (no_history_strict\<lparr>getCustomerHistory := (\<lambda>c. [(), (), ()]),
                             customerBehavior_predict := (\<lambda>x. Inl LibraryError)\<rparr>) ''guest''
       = Inl LibraryError"
proof -
  let ?short = "no_history_strict\<lparr>customerBehavior_predict := (\<lambda>x. Inl LibraryError)\<rparr>"
  let ?long = "no_history_strict\<lparr>getCustomerHistory := (\<lambda>c. [(), (), ()]),
                                  customerBehavior_predict := (\<lambda>x. Inl LibraryError)\<rparr>"
  have a: "length (getCustomerHistory ?short ''guest'') < 3"
    by (simp add: no_history_strict_def)
  have b: "3 \<le> length (getCustomerHistory ?long ''guest'')"
    by simp
  have c: "customerBehavior_predict ?long
             (extractOrderPatterns ?long (getCustomerHistory ?long ''guest'') @ timeFactors ?long)
           = Inl LibraryError"
    by simp
  from predictNextOrder_short_history [of ?short "''guest''"] a
  have "predictNextOrder ?short ''guest''
       = Inr \<lparr>no_items = [], no_confidence = 0, no_reasoning = None\<rparr>"
    by blast
  moreover from predictNextOrder_short_history [of ?long "''guest''" LibraryError] b c
  have "predictNextOrder ?long ''guest'' = Inl LibraryError"
    by blast
  ultimately show ?thesis using a b by blast
qed

text \<open>
  C3 as stated fails for \<open>forecastDemand\<close>, which has no guard like the one of
  \<open>predictNextOrder\<close>: with no day of history the method raises where the library
  refuses the empty array, and where the library accepts it the confidences are those
  of \<open>calculateForecastConfidence\<close>, here 1/2 and not 0.
\<close>

theorem forecastDemand_counterexample:
  "getHistoricalDemand no_history_strict = []
   \<and> forecastDemand no_history_strict ''week'' 0 = Inl LibraryError
   \<and> getHistoricalDemand no_history_lenient = []
   \<and> (case forecastDemand no_history_lenient ''week'' 0 of
         Inl e \<Rightarrow> []
       | Inr r \<Rightarrow> map df_confidence (daily r))
       = [1 / 2, 1 / 2, 1 / 2, 1 / 2, 1 / 2, 1 / 2, 1 / 2]"
  by (simp add: forecastDemand_def no_history_lenient_def no_history_strict_def Let_def upt_rec)

end
